theory Spec2Isabelle
  imports Main "HOL-Library.Sublist" "HOL-Library.AList"
begin

section \<open>JavaScript values used by the preview server\<close>

text \<open>
  Strings are \<open>string\<close> (lists of characters). An exception of the source is a value of
  type \<open>error\<close>, and a call that may throw returns \<open>error + 'a\<close> with \<open>Inl\<close> the
  exception. \<open>TypeError\<close> is what the engine raises when the source reads a property of
  \<open>undefined\<close>; \<open>HostError\<close> is any exception of a call into the host (the file system,
  a child process, a parser).
\<close>

datatype error = TypeError | HostError string

text \<open>
  \<open>String.prototype.trim\<close> on the ASCII white space and line terminators (tab, line
  feed, vertical tab, form feed, carriage return, space). The output of \<open>lsof\<close> and
  \<open>netstat\<close> is ASCII.
\<close>

definition js_whitespace :: "char \<Rightarrow> bool" where
  "js_whitespace c = (c \<in> set [CHR 0x09, CHR 0x0A, CHR 0x0B, CHR 0x0C, CHR 0x0D, CHR 0x20])"

definition trim :: "string \<Rightarrow> string" where
  "trim s = rev (dropWhile js_whitespace (rev (dropWhile js_whitespace s)))"

text \<open>The decimal numeral of a non-negative integer, as a template literal prints it.\<close>

fun toString :: "nat \<Rightarrow> string" where
  "toString n =
     (if n < 10 then [''0123456789'' ! n]
      else toString (n div 10) @ [''0123456789'' ! (n mod 10)])"

declare toString.simps [simp del]

text \<open>
  \<open>s.split(c)\<close> for a one-character separator: the pieces between the separators, at
  least one (the split of the empty string is one empty piece).
\<close>

fun split :: "char \<Rightarrow> string \<Rightarrow> string list" where
  "split c [] = [[]]"
| "split c (x # xs) =
     (if x = c then [] # split c xs
      else (case split c xs of y # ys \<Rightarrow> (x # y) # ys | [] \<Rightarrow> [[x]]))"

text \<open>\<open>xs[i]\<close>: \<open>None\<close> is \<open>undefined\<close>, the value of an index out of range.\<close>

definition at :: "'a list \<Rightarrow> nat \<Rightarrow> 'a option" where
  "at xs i = (if i < length xs then Some (xs ! i) else None)"

text \<open>\<open>xs.join(sep)\<close> on strings.\<close>

fun joinWith :: "string \<Rightarrow> string list \<Rightarrow> string" where
  "joinWith sep [] = []"
| "joinWith sep [x] = x"
| "joinWith sep (x # y # ys) = x @ sep @ joinWith sep (y # ys)"

text \<open>
  \<open>s.replace(pat, rep)\<close> for a string pattern: the first occurrence of \<open>pat\<close> is
  replaced. The source only ever passes the replacement \<open>''\<close>, which has no \<open>$\<close>
  patterns.
\<close>

fun replace :: "string \<Rightarrow> string \<Rightarrow> string \<Rightarrow> string" where
  "replace pat rep [] = (if pat = [] then rep else [])"
| "replace pat rep (c # cs) =
     (if prefix pat (c # cs) then rep @ drop (length pat) (c # cs)
      else c # replace pat rep cs)"

text \<open>\<open>s.replace(/x/gi, y)\<close> for single characters \<open>x\<close> and \<open>y\<close>: every occurrence.\<close>

definition replaceAllChar :: "char \<Rightarrow> char \<Rightarrow> string \<Rightarrow> string" where
  "replaceAllChar x y s = map (\<lambda>c. if c = x then y else c) s"

section \<open>The path module of the host, POSIX flavour\<close>

text \<open>
  Node's \<open>path\<close> is not code of the repository; the functions the source calls are
  modelled as \<open>path.posix\<close> computes them, on the segments between the slashes.
  \<open>normalizeSegs\<close> is the segment walk of Node's \<open>normalizeString\<close>: empty and \<open>.\<close>
  segments are dropped, \<open>..\<close> removes the segment before it, or is kept when there is
  none to remove and the path may climb above its start.
\<close>

definition sep :: string where
  "sep = ''/''"

fun normalizeSegs :: "bool \<Rightarrow> string list \<Rightarrow> string list \<Rightarrow> string list" where
  "normalizeSegs allowAboveRoot res [] = res"
| "normalizeSegs allowAboveRoot res (s # ss) =
     (if s = [] \<or> s = ''.'' then normalizeSegs allowAboveRoot res ss
      else if s = ''..'' then
        (if res \<noteq> [] \<and> last res \<noteq> ''..'' then normalizeSegs allowAboveRoot (butlast res) ss
         else if allowAboveRoot then normalizeSegs allowAboveRoot (res @ [''..'']) ss
         else normalizeSegs allowAboveRoot res ss)
      else normalizeSegs allowAboveRoot (res @ [s]) ss)"

definition normalizeString :: "string \<Rightarrow> bool \<Rightarrow> string" where
  "normalizeString p allowAboveRoot =
     joinWith ''/'' (normalizeSegs allowAboveRoot [] (split CHR ''/'' p))"

definition isAbsolute :: "string \<Rightarrow> bool" where
  "isAbsolute p = (p \<noteq> [] \<and> hd p = CHR ''/'')"

definition normalize_path :: "string \<Rightarrow> string" where
  "normalize_path p =
     (if p = [] then ''.''
      else
        let trailingSeparator = (last p = CHR ''/'');
            q = normalizeString p (\<not> isAbsolute p)
        in if q = [] then
             (if isAbsolute p then ''/'' else if trailingSeparator then ''./'' else ''.'')
           else (if isAbsolute p then ''/'' else []) @ q
                  @ (if trailingSeparator then ''/'' else []))"

text \<open>\<open>path.join(...args)\<close>: the non-empty arguments joined by a slash, then normalised.\<close>

definition join :: "string list \<Rightarrow> string" where
  "join args =
     (let joined = joinWith ''/'' (filter (\<lambda>a. a \<noteq> []) args)
      in if joined = [] then ''.'' else normalize_path joined)"

text \<open>
  \<open>path.resolve(...args)\<close>: the arguments are taken from the right until one is
  absolute, the working directory last. \<open>resolve_loop\<close> walks the reversed list.
\<close>

fun resolve_loop :: "string list \<Rightarrow> string \<Rightarrow> string \<times> bool" where
  "resolve_loop [] resolvedPath = (resolvedPath, False)"
| "resolve_loop (p # ps) resolvedPath =
     (if p = [] then resolve_loop ps resolvedPath
      else if hd p = CHR ''/'' then (p @ ''/'' @ resolvedPath, True)
      else resolve_loop ps (p @ ''/'' @ resolvedPath))"

definition resolve :: "string \<Rightarrow> string list \<Rightarrow> string" where
  "resolve cwd args =
     (case resolve_loop (rev (cwd # args)) [] of
        (resolvedPath, resolvedAbsolute) \<Rightarrow>
          let q = normalizeString resolvedPath (\<not> resolvedAbsolute)
          in if resolvedAbsolute then ''/'' @ q
             else if q \<noteq> [] then q else ''.'')"

text \<open>
  \<open>path.basename(p)\<close> and \<open>path.extname(p)\<close>: trailing slashes are ignored; the
  extension starts at the last dot of the base name, and is empty when there is no dot,
  when the only dot is the first character, and for \<open>..\<close>.
\<close>

definition stripTrailingSlashes :: "string \<Rightarrow> string" where
  "stripTrailingSlashes p = rev (dropWhile (\<lambda>c. c = CHR ''/'') (rev p))"

definition basename :: "string \<Rightarrow> string" where
  "basename p = last (split CHR ''/'' (stripTrailingSlashes p))"

definition extOf :: "string \<Rightarrow> string" where
  "extOf b =
     (let r = rev b;
          after = takeWhile (\<lambda>c. c \<noteq> CHR ''.'') r;
          upto = dropWhile (\<lambda>c. c \<noteq> CHR ''.'') r
      in if upto = [] \<or> tl upto = [] \<or> b = ''..'' then []
         else CHR ''.'' # rev after)"

definition extname :: "string \<Rightarrow> string" where
  "extname p = extOf (basename p)"

section \<open>Port search (LwrServerUtils.getNextAvailablePort)\<close>

datatype platform = Win32 | OtherPlatform

definition DEFAULT_SERVER_PORT :: nat where
  "DEFAULT_SERVER_PORT = 3000"

text \<open>
  The probe command of one iteration:
  \<^verbatim>\<open>process.platform === 'win32' ? `netstat -an | find "LISTENING" | find ":${port}"` : `lsof -i :${port}`\<close>.
\<close>

definition probe_cmd :: "platform \<Rightarrow> nat \<Rightarrow> string" where
  "probe_cmd pf port =
     (if pf = Win32
      then ''netstat -an | find '' @ [CHR 0x22] @ ''LISTENING'' @ [CHR 0x22] @ '' | find ''
             @ [CHR 0x22] @ '':'' @ toString port @ [CHR 0x22]
      else ''lsof -i :'' @ toString port)"

text \<open>
  The \<open>while (!done)\<close> loop, entered with the current value of \<open>port\<close>. The loop has no
  bound on its iterations, so it is a partial function: \<open>None\<close> is the loop that never
  ends. \<open>exec\<close> is \<open>CommonUtils.executeCommandSync\<close>.
\<close>

partial_function (option) probe_from ::
  "platform \<Rightarrow> (string \<Rightarrow> error + string) \<Rightarrow> nat \<Rightarrow> nat option" where
  "probe_from pf exec port =
     (case exec (probe_cmd pf port) of
        Inr result \<Rightarrow>
          if trim result \<noteq> [] then probe_from pf exec (port + 2)
          else Some port
      | Inl e \<Rightarrow> Some port)"

definition getNextAvailablePort :: "platform \<Rightarrow> (string \<Rightarrow> error + string) \<Rightarrow> nat option" where
  "getNextAvailablePort pf exec = probe_from pf exec DEFAULT_SERVER_PORT"

text \<open>
  A probe reports a port in use when the command returns some output that is not blank;
  a command that throws, or prints nothing, reports the port free.
\<close>

definition port_in_use :: "platform \<Rightarrow> (string \<Rightarrow> error + string) \<Rightarrow> nat \<Rightarrow> bool" where
  "port_in_use pf exec port =
     (case exec (probe_cmd pf port) of Inr result \<Rightarrow> trim result \<noteq> [] | Inl e \<Rightarrow> False)"

text \<open>A host on which only port 3000 is taken: \<open>lsof\<close> prints a line for it and fails otherwise.\<close>

definition exec_3000_busy :: "string \<Rightarrow> error + string" where
  "exec_3000_busy cmd =
     (if cmd = ''lsof -i :3000'' then Inr ''node 4242 dev 23u IPv6 TCP *:3000 (LISTEN)''
      else Inl (HostError ''Command failed''))"

section \<open>The effective server configuration (LwrServerUtils.getMergedLwrConfig)\<close>

text \<open>
  The types of the configuration, as \<open>LwrGlobalConfig\<close> declares the fields the source
  reads and writes. A field that the object does not have (\<open>undefined\<close>) is \<open>None\<close>. A
  module provider entry is a bare name, as a configuration file writes it, or a pair of
  a path and its options.
\<close>

record dir_module_record =
  dir :: string

record lwr_route =
  route_id :: string
  route_path :: string
  rootComponent :: string

datatype service_config = ServiceName string | ServiceEntry string "string option"

record lwc_config =
  modules :: "dir_module_record list option"

record lwr_global_config =
  serverMode :: "string option"
  port :: "int option"
  rootDir :: "string option"
  cacheDir :: "string option"
  lwc :: "lwc_config option"
  moduleProviders :: "service_config list option"
  routes :: "lwr_route list option"

text \<open>
  What the function reads from its host: the platform, the working directory that
  \<open>path.resolve\<close> starts from, \<open>__dirname\<close>, the clock (\<open>Date.now()\<close>), the child
  process runner, the JSON loader (\<open>Inl\<close> when the file is missing or is not JSON) and
  the module providers of \<open>normalizeConfig\<close>'s default configuration.
\<close>

record host =
  platform :: platform
  cwd :: string
  dirname :: string
  now :: nat
  executeCommandSync :: "string \<Rightarrow> error + string"
  loadJsonFromFile :: "string \<Rightarrow> error + lwr_global_config"
  normalizeConfigProviders :: "service_config list"

text \<open>The object \<open>{}\<close> that \<open>config\<close> starts as.\<close>

definition empty_config :: lwr_global_config where
  "empty_config =
     \<lparr>serverMode = None, port = None, rootDir = None, cacheDir = None, lwc = None,
      moduleProviders = None, routes = None\<rparr>"

text \<open>
  \<open>!v\<close> is true for \<open>undefined\<close>, for the empty string and for the number 0; an array
  or object is never falsy.
\<close>

definition truthy_string :: "string option \<Rightarrow> bool" where
  "truthy_string v = (case v of None \<Rightarrow> False | Some s \<Rightarrow> s \<noteq> [])"

definition truthy_number :: "int option \<Rightarrow> bool" where
  "truthy_number v = (case v of None \<Rightarrow> False | Some n \<Rightarrow> n \<noteq> 0)"

definition getModifiedModuleProviders :: "host \<Rightarrow> service_config list" where
  "getModifiedModuleProviders h =
     ServiceEntry (resolve (cwd h) [dirname h @ ''/CustomLwcModuleProvider.js'']) None
       # normalizeConfigProviders h"

text \<open>The constants that \<open>getMergedLwrConfig\<close> computes before it reads the file.\<close>

definition componentFullPath :: "host \<Rightarrow> string \<Rightarrow> string \<Rightarrow> string" where
  "componentFullPath h componentName projectDir =
     resolve (cwd h) [join [projectDir, componentName]]"

definition twoLevelUp :: "host \<Rightarrow> string \<Rightarrow> string \<Rightarrow> string" where
  "twoLevelUp h componentName projectDir =
     resolve (cwd h) [join [componentFullPath h componentName projectDir, ''../../'']]"

definition rootComp :: "host \<Rightarrow> string \<Rightarrow> string \<Rightarrow> string" where
  "rootComp h componentName projectDir =
     replaceAllChar (CHR 0x5C) (CHR ''/'')
       (replace (twoLevelUp h componentName projectDir @ sep) []
          (componentFullPath h componentName projectDir))"

definition lwcModuleRecord :: "host \<Rightarrow> string \<Rightarrow> string \<Rightarrow> dir_module_record" where
  "lwcModuleRecord h componentName projectDir = \<lparr>dir = twoLevelUp h componentName projectDir\<rparr>"

definition defaultLwrRoute :: "host \<Rightarrow> string \<Rightarrow> string \<Rightarrow> lwr_route" where
  "defaultLwrRoute h componentName projectDir =
     \<lparr>route_id =
        replaceAllChar (CHR ''/'') (CHR ''-'') (rootComp h componentName projectDir)
          @ ''-'' @ toString (now h),
      route_path = ''/'',
      rootComponent = rootComp h componentName projectDir\<rparr>"

definition configFile :: "host \<Rightarrow> string \<Rightarrow> string" where
  "configFile h projectDir = resolve (cwd h) [join [projectDir, ''lwr.config.json'']]"

text \<open>
  The merge. The only step that may not return is the port search, which runs when the
  file gives no (truthy) port: the result is \<open>None\<close> when that search never ends.
\<close>

definition getMergedLwrConfig :: "host \<Rightarrow> string \<Rightarrow> string \<Rightarrow> lwr_global_config option" where
  "getMergedLwrConfig h componentName projectDir =
     (let rootDirectory = resolve (cwd h) [projectDir];
          modifiedModuleProviders = getModifiedModuleProviders h;
          config = (case loadJsonFromFile h (configFile h projectDir) of
                      Inr c \<Rightarrow> c
                    | Inl e \<Rightarrow> empty_config);
          config = (if \<not> truthy_string (serverMode config)
                    then config\<lparr>serverMode := Some ''dev''\<rparr> else config)
      in Option.bind
           (if \<not> truthy_number (port config)
            then map_option (\<lambda>p. config\<lparr>port := Some (int p)\<rparr>)
                   (getNextAvailablePort (platform h) (executeCommandSync h))
            else Some config)
           (\<lambda>config.
              let config = (if \<not> truthy_string (rootDir config)
                            then config\<lparr>rootDir := Some rootDirectory\<rparr> else config);
                  config =
                    (case lwc config of
                       None \<Rightarrow>
                         config\<lparr>lwc := Some \<lparr>modules =
                           Some [lwcModuleRecord h componentName projectDir]\<rparr>\<rparr>
                     | Some l \<Rightarrow>
                         (case modules l of
                            None \<Rightarrow>
                              config\<lparr>lwc := Some (l\<lparr>modules :=
                                Some [lwcModuleRecord h componentName projectDir]\<rparr>)\<rparr>
                          | Some ms \<Rightarrow>
                              config\<lparr>lwc := Some (l\<lparr>modules :=
                                Some (lwcModuleRecord h componentName projectDir # ms)\<rparr>)\<rparr>));
                  config =
                    (case moduleProviders config of
                       None \<Rightarrow> config\<lparr>moduleProviders := Some modifiedModuleProviders\<rparr>
                     | Some ps \<Rightarrow>
                         config\<lparr>moduleProviders := Some (modifiedModuleProviders @ ps)\<rparr>);
                  config =
                    (case routes config of
                       None \<Rightarrow>
                         config\<lparr>routes := Some [defaultLwrRoute h componentName projectDir]\<rparr>
                     | Some rs \<Rightarrow>
                         config\<lparr>routes :=
                           Some (defaultLwrRoute h componentName projectDir # rs)\<rparr>)
              in Some config))"

text \<open>What the user's file declared as a list, the empty list when it declared none.\<close>

definition declared :: "'a list option \<Rightarrow> 'a list" where
  "declared v = (case v of None \<Rightarrow> [] | Some xs \<Rightarrow> xs)"

definition declared_modules :: "lwr_global_config \<Rightarrow> dir_module_record list" where
  "declared_modules c = (case lwc c of None \<Rightarrow> [] | Some l \<Rightarrow> declared (modules l))"

text \<open>
  Two hosts for the examples: a developer machine at \<open>/home/dev\<close> on which port 3000 is
  taken, first with no \<open>lwr.config.json\<close> in the project, then with one that declares
  the falsy values \<open>"port": 0\<close> and \<open>"rootDir": ""\<close> and one route.
\<close>

definition host_no_file :: host where
  "host_no_file =
     \<lparr>platform = OtherPlatform, cwd = ''/home/dev'', dirname = ''/plugin/lib/common'',
      now = 1700000000000, executeCommandSync = exec_3000_busy,
      loadJsonFromFile = (\<lambda>f. Inl (HostError ''ENOENT'')),
      normalizeConfigProviders = [ServiceName ''@lwrjs/npm-module-provider'']\<rparr>"

definition user_config_falsy :: lwr_global_config where
  "user_config_falsy =
     \<lparr>serverMode = Some ''prod'', port = Some 0, rootDir = Some [], cacheDir = None,
      lwc = None, moduleProviders = Some [ServiceName ''@company/my-module-provider''],
      routes = Some [\<lparr>route_id = ''example'', route_path = ''/my/path'',
                      rootComponent = ''example/app''\<rparr>]\<rparr>"

definition host_falsy_file :: host where
  "host_falsy_file =
     host_no_file\<lparr>loadJsonFromFile :=
       (\<lambda>f. if f = ''/proj/lwr.config.json'' then Inr user_config_falsy
            else Inl (HostError ''ENOENT''))\<rparr>"

section \<open>The label provider (SalesforceLabelProvider)\<close>

text \<open>
  A parsed \<open>*.labels-meta.xml\<close> document is a JavaScript value as \<open>XMLParser.parse\<close>
  builds it. The document and every element with child elements is an object with a
  property for each child name, which holds an array when the name repeats. An element
  with text only is that text: a number or a boolean when the text reads as one
  (\<open>42\<close>, \<open>0\<close>, \<open>true\<close>, \<open>false\<close>), a string otherwise, the empty string for an empty
  element. A number is a finite double, \<open>Number m e\<close> for \<open>m \<times> 10^e\<close> (every finite
  double is such a decimal; zero is \<open>m = 0\<close>). \<open>Undefined\<close> is what reading a property
  gives that the object does not have. An object is the list of its properties, a read
  taking the first of a name. The label map is a JavaScript \<open>Map\<close>: the files in the
  order they were set.
\<close>

datatype js_value =
    Undefined
  | Text string
  | Number int int
  | Boolean bool
  | Array "js_value list"
  | Object "(string \<times> js_value) list"

type_synonym js_object = "(string \<times> js_value) list"

type_synonym labels_map = "(string \<times> js_object) list"

text \<open>
  \<open>v?.k\<close> and \<open>v.k\<close> for the property names that the provider reads in a document
  (\<open>CustomLabels\<close>, \<open>labels\<close>, \<open>fullName\<close>, \<open>value\<close>): only an object can have one of
  them, a string, a number, a boolean or an array gives \<open>undefined\<close>, and \<open>v.k\<close> on
  \<open>undefined\<close> is a \<open>TypeError\<close>.
\<close>

fun read_optional :: "js_value \<Rightarrow> string \<Rightarrow> js_value" where
  "read_optional (Object ps) k = (case map_of ps k of None \<Rightarrow> Undefined | Some v \<Rightarrow> v)"
| "read_optional v k = Undefined"

definition read_property :: "js_value \<Rightarrow> string \<Rightarrow> error + js_value" where
  "read_property v k = (if v = Undefined then Inl TypeError else Inr (read_optional v k))"

text \<open>The truth value of \<open>if (v)\<close> and \<open>!v\<close>.\<close>

fun truthy :: "js_value \<Rightarrow> bool" where
  "truthy Undefined = False"
| "truthy (Text s) = (s \<noteq> [])"
| "truthy (Number m e) = (m \<noteq> 0)"
| "truthy (Boolean b) = b"
| "truthy (Array vs) = True"
| "truthy (Object ps) = True"


record module_id =
  specifier :: string
  namespace :: "string option"
  name :: "string option"
  importer :: "string option"

record label_module_entry =
  entry_id :: string
  virtual :: bool
  entry :: string
  entry_specifier :: string
  entry_version :: string
  labelValue :: js_value




definition version :: string where
  "version = ''1''"

text \<open>
  \<open>let labels = item[1].CustomLabels?.labels; if (!Array.isArray(labels)) labels = [labels]\<close>:
  the array that is searched. A missing \<open>labels\<close> becomes the array \<open>[undefined]\<close>.
\<close>

fun as_array :: "js_value \<Rightarrow> js_value list" where
  "as_array (Array ls) = ls"
| "as_array labels = [labels]"

definition labels_array :: "js_object \<Rightarrow> js_value list" where
  "labels_array doc =
     as_array (read_optional (read_optional (Object doc) ''CustomLabels'') ''labels'')"

text \<open>
  \<open>labels.find((item) => item.fullName === labelName)\<close>: the callback reads a property of
  each element up to the first match, which is a \<open>TypeError\<close> on \<open>undefined\<close>. Only a
  string is \<open>===\<close> to the label name. The result is the element, or \<open>undefined\<close> when
  the callback holds of none.
\<close>

fun find_label :: "string \<Rightarrow> js_value list \<Rightarrow> error + js_value" where
  "find_label labelName [] = Inr Undefined"
| "find_label labelName (item # ls) =
     (case read_property item ''fullName'' of
        Inl e \<Rightarrow> Inl e
      | Inr v \<Rightarrow> if v = Text labelName then Inr item else find_label labelName ls)"

text \<open>
  The \<open>for (var item of this.customLabelsMap)\<close> loop: the first match returns its
  \<open>value\<close>, whatever that is.
\<close>

fun search_label_files :: "string \<Rightarrow> labels_map \<Rightarrow> error + js_value" where
  "search_label_files labelName [] = Inr Undefined"
| "search_label_files labelName (item # items) =
     (case find_label labelName (labels_array (snd item)) of
        Inl e \<Rightarrow> Inl e
      | Inr match \<Rightarrow>
          if truthy match then read_property match ''value''
          else search_label_files labelName items)"

text \<open>\<open>specifier?.split('/')[2]?.split('.')[1]\<close>\<close>

definition label_name_of :: "string \<Rightarrow> string option" where
  "label_name_of spec =
     (case at (split (CHR ''/'') spec) 2 of
        None \<Rightarrow> None
      | Some seg \<Rightarrow> at (split (CHR ''.'') seg) 1)"

definition getLabelValueFromMap :: "labels_map \<Rightarrow> string \<Rightarrow> error + js_value" where
  "getLabelValueFromMap customLabelsMap spec =
     (case label_name_of spec of
        None \<Rightarrow> Inr Undefined
      | Some labelName \<Rightarrow>
          if labelName \<noteq> [] then search_label_files labelName customLabelsMap
          else Inr Undefined)"


text \<open>The template \<open>`export default "${moduleEntry.labelValue}";`\<close>, given the text of the value.\<close>

definition label_source :: "string \<Rightarrow> string" where
  "label_source v = ''export default '' @ [CHR 0x22] @ v @ [CHR 0x22] @ '';''"






text \<open>A label name as a project declares it: not empty, without dot or slash.\<close>

definition plain_name :: "string \<Rightarrow> bool" where
  "plain_name n = (n \<noteq> [] \<and> CHR ''.'' \<notin> set n \<and> CHR ''/'' \<notin> set n)"

text \<open>
  Label files, a hash function and the text of a whole number \<open>m \<times> 10^e\<close> with
  \<open>0 \<le> e\<close> for the examples. The first file has five labels: one with an empty value,
  two with the values \<open>0\<close> and \<open>42\<close>, and one whose name in the file is \<open>true\<close>, all
  as the parser gives them. The second file has one label, so its \<open>labels\<close> is the
  label itself.
\<close>

definition sample_hash :: "string \<Rightarrow> string" where
  "sample_hash s = toString (length s)"


definition greeting :: js_value where
  "greeting =
     Object [(''fullName'', Text ''greeting''), (''language'', Text ''en_US''),
             (''protected'', Boolean True), (''value'', Text ''Hello'')]"

definition blank :: js_value where
  "blank = Object [(''fullName'', Text ''blank''), (''value'', Text [])]"

definition retries :: js_value where
  "retries = Object [(''fullName'', Text ''retries''), (''value'', Number 0 0)]"

definition answer :: js_value where
  "answer = Object [(''fullName'', Text ''answer''), (''value'', Number 42 0)]"

definition named_true :: js_value where
  "named_true = Object [(''fullName'', Boolean True), (''value'', Text ''Yes'')]"

definition labels_two_files :: labels_map where
  "labels_two_files =
     [(''force-app/main/default/labels/A.labels-meta.xml'',
        [(''CustomLabels'',
           Object [(''labels'',
             Array [blank, retries,
                    Object [(''fullName'', Text ''bye''), (''value'', Text ''Bye'')],
                    answer, named_true])])]),
      (''force-app/main/default/labels/B.labels-meta.xml'',
        [(''CustomLabels'', Object [(''labels'', greeting)])])]"

section \<open>The component provider (CustomLwcModuleProvider)\<close>

text \<open>
  The provider keeps the component map (a \<open>Map\<close> from the component's name to its
  directory). \<open>existsSync\<close> is \<open>fs.existsSync\<close>, \<open>super_getModuleEntry\<close> the method of
  the base class \<open>LwcModuleProvider\<close> that the last line defers to, and
  \<open>lwcDevMobilePath\<close> the plug-in's directory.
\<close>

record component_entry =
  component_id :: string
  component_path :: string
  component_specifier :: string
  component_version :: string

record component_provider =
  moduleMap :: "(string \<times> string) list"
  existsSync :: "string \<Rightarrow> bool"
  super_getModuleEntry :: "module_id \<Rightarrow> component_entry option"
  lwcDevMobilePath :: string

definition nestedModulesNamespace :: string where
  "nestedModulesNamespace = ''c/''"

text \<open>
  The body of \<open>if (newModuleId.specifier.startsWith(__nestedModulesNamespace))\<close>:
  \<open>Some\<close> is the entry it returns, \<open>None\<close> is falling out of the block. The split of a
  string always has a first piece.
\<close>

definition own_entry :: "component_provider \<Rightarrow> module_id \<Rightarrow> module_id \<Rightarrow> component_entry option" where
  "own_entry this moduleId newModuleId =
     (let parts = split (CHR ''#'') (specifier moduleId);
          baseSpecifier = replace nestedModulesNamespace [] (hd parts);
          fileRelativePath = (if length parts > 1 then Some (parts ! 1) else None)
      in case map_of (moduleMap this) baseSpecifier of
           None \<Rightarrow> None
         | Some directoryname \<Rightarrow>
             if directoryname \<noteq> [] then
               let name0 = replace nestedModulesNamespace [] (specifier newModuleId);
                   name1 =
                     (if \<not> truthy_string fileRelativePath \<and> CHR ''.'' \<notin> set name0 then
                        (let fullPath = join [directoryname, name0]
                         in if existsSync this (fullPath @ ''.js'') then name0 @ ''.js''
                            else if existsSync this (fullPath @ ''.css'') then name0 @ ''.css''
                            else name0)
                      else name0);
                   entry = join [directoryname,
                             (case fileRelativePath of
                                Some rel \<Rightarrow> if rel \<noteq> [] then rel else name1
                              | None \<Rightarrow> name1)]
               in if entry \<noteq> [] then
                    Some \<lparr>component_id = specifier newModuleId @ ''|'' @ version,
                          component_path = entry,
                          component_specifier = specifier newModuleId,
                          component_version = version\<rparr>
                  else None
             else None)"

definition getModuleEntry :: "component_provider \<Rightarrow> module_id \<Rightarrow> component_entry option" where
  "getModuleEntry this moduleId =
     (let newModuleId = moduleId\<lparr>importer := Some (lwcDevMobilePath this)\<rparr>
      in case (if prefix nestedModulesNamespace (specifier newModuleId)
               then own_entry this moduleId newModuleId else None) of
           Some e \<Rightarrow> Some e
         | None \<Rightarrow> super_getModuleEntry this newModuleId)"

text \<open>
  A provider for the examples: the component \<open>hello\<close> has a script, \<open>theme\<close> only a
  style sheet, and the directory of \<open>empty\<close> has neither file; the base class resolves
  nothing.
\<close>

definition sample_provider :: component_provider where
  "sample_provider =
     \<lparr>moduleMap = [(''hello'', ''/proj/force-app/main/default/lwc/hello''),
                   (''theme'', ''/proj/force-app/main/default/lwc/theme''),
                   (''empty'', ''/proj/force-app/main/default/lwc/empty'')],
      existsSync = (\<lambda>f. f \<in> set [''/proj/force-app/main/default/lwc/hello/hello.js'',
                                   ''/proj/force-app/main/default/lwc/hello/hello.css'',
                                   ''/proj/force-app/main/default/lwc/theme/theme.css'']),
      super_getModuleEntry = (\<lambda>m. None),
      lwcDevMobilePath = ''/plugin''\<rparr>"

definition component_specifier_of :: "string \<Rightarrow> module_id" where
  "component_specifier_of n =
     \<lparr>specifier = ''c/'' @ n, namespace = None, name = None, importer = None\<rparr>"

section \<open>The file system host of the locators and of the resource provider\<close>

text \<open>
  What these functions call outside the repository, each call returning its value or
  the exception it throws: \<open>fs.readFileSync\<close>, \<open>JSON.parse\<close> on the project manifest,
  \<open>XMLParser.parse\<close> on a labels file and \<open>fastGlob.sync\<close> on a list of patterns;
  and what they read: the working directory and \<open>process.env.ROOT_DIR\<close>. The manifest,
  as far as it is read, is the list \<open>packageDirectories\<close> (absent in a JSON value
  without that field) of objects with a \<open>path\<close>.
\<close>

record package_dir =
  path :: string

record project_json =
  packageDirectories :: "package_dir list option"

record fs_host =
  fs_cwd :: string
  env_ROOT_DIR :: "string option"
  readFileSync :: "string \<Rightarrow> error + string"
  JSON_parse :: "string \<Rightarrow> error + project_json"
  XMLParser_parse :: "string \<Rightarrow> error + js_object"
  fastGlob_sync :: "string list \<Rightarrow> error + string list"

section \<open>The resource provider (SalesforceResourceProvider)\<close>

record resource_entry =
  resource_entry_id :: string
  resource_virtual :: bool
  resource_entry_path :: string
  resource_entry_specifier :: string
  resource_entry_version :: string

record resource_module =
  resource_id :: string
  resource_specifier :: string
  resource_namespace :: "string option"
  resource_name :: string
  resource_version :: string
  resource_originalSource :: string
  resource_moduleEntry :: resource_entry
  resource_ownHash :: string
  resource_compiledSource :: string

definition RESOURCE_URL_PREFIX :: string where
  "RESOURCE_URL_PREFIX = ''@salesforce/resourceUrl/''"

definition CONTENT_ASSET_URL_PREFIX :: string where
  "CONTENT_ASSET_URL_PREFIX = ''@salesforce/contentAssetUrl/''"

definition isResourceUrlScopedModule :: "string \<Rightarrow> bool" where
  "isResourceUrlScopedModule ident =
     (prefix RESOURCE_URL_PREFIX ident \<or> prefix CONTENT_ASSET_URL_PREFIX ident)"

text \<open>The three patterns that \<open>getFileExtension\<close> passes to the glob, with \<open>onlyFiles\<close>.\<close>

definition extension_patterns :: "string \<Rightarrow> string list" where
  "extension_patterns filePath =
     [filePath @ ''.*'', ''!'' @ filePath @ ''.resource-meta.*'',
      ''!'' @ filePath @ ''.asset-meta.*'']"

definition getFileExtension :: "fs_host \<Rightarrow> string \<Rightarrow> string" where
  "getFileExtension h filePath =
     (case fastGlob_sync h (extension_patterns filePath) of
        Inr files \<Rightarrow> if length files > 0 then extname (hd files) else []
      | Inl e \<Rightarrow> [])"

text \<open>\<open>path.normalize(path.resolve(rootDir, pathInFolder))\<close> with \<open>rootDir\<close> resolved from \<open>ROOT_DIR ?? ''\<close>.\<close>

definition fullPathOf :: "fs_host \<Rightarrow> string \<Rightarrow> string" where
  "fullPathOf h pathInFolder =
     (let rootDir = resolve (fs_cwd h) [case env_ROOT_DIR h of None \<Rightarrow> [] | Some r \<Rightarrow> r]
      in normalize_path (resolve (fs_cwd h) [rootDir, pathInFolder]))"

definition getPath :: "fs_host \<Rightarrow> string \<Rightarrow> string \<Rightarrow> string" where
  "getPath h nm folder =
     (let pathInFolder = join [folder, nm];
          fullPath = fullPathOf h pathInFolder;
          fileExtension = getFileExtension h fullPath
      in pathInFolder @ fileExtension)"

definition getContentAssetFilePath :: "fs_host \<Rightarrow> string \<Rightarrow> string" where
  "getContentAssetFilePath h nm = getPath h nm ''force-app/main/default/contentassets''"

definition getResourceFilePath :: "fs_host \<Rightarrow> string \<Rightarrow> string" where
  "getResourceFilePath h nm = getPath h nm ''force-app/main/default/staticresources''"

definition resource_getModuleEntry :: "module_id \<Rightarrow> resource_entry option" where
  "resource_getModuleEntry moduleId =
     (if isResourceUrlScopedModule (specifier moduleId) then
        Some \<lparr>resource_entry_id = specifier moduleId @ ''|'' @ version,
              resource_virtual = True,
              resource_entry_path =
                ''<virtual>/'' @ specifier moduleId
                  @ (if extname (specifier moduleId) \<noteq> [] then [] else ''.js''),
              resource_entry_specifier = specifier moduleId,
              resource_entry_version = version\<rparr>
      else None)"

text \<open>
  \<open>getModule\<close>: \<open>moduleId.specifier.split('/')[2].split('.')[0]\<close> reads a property of
  \<open>undefined\<close> when the specifier has fewer than three pieces; the first piece of a
  split always exists. The exported source uses the same template as a label's.
\<close>

definition resource_getModule ::
  "(string \<Rightarrow> string) \<Rightarrow> fs_host \<Rightarrow> module_id \<Rightarrow> error + resource_module option" where
  "resource_getModule hashContent h moduleId =
     (case resource_getModuleEntry moduleId of
        None \<Rightarrow> Inr None
      | Some e \<Rightarrow>
          (case at (split (CHR ''/'') (specifier moduleId)) 2 of
             None \<Rightarrow> Inl TypeError
           | Some seg \<Rightarrow>
               let isContentAsset = prefix CONTENT_ASSET_URL_PREFIX (specifier moduleId);
                   nm = hd (split (CHR ''.'') seg);
                   filePath = (if isContentAsset then getContentAssetFilePath h nm
                               else getResourceFilePath h nm);
                   source = label_source filePath
               in Inr (Some
                    \<lparr>resource_id = resource_entry_id e,
                     resource_specifier = specifier moduleId,
                     resource_namespace = namespace moduleId,
                     resource_name =
                       (case name moduleId of None \<Rightarrow> specifier moduleId | Some n \<Rightarrow> n),
                     resource_version = version,
                     resource_originalSource = source,
                     resource_moduleEntry = e,
                     resource_ownHash = hashContent source,
                     resource_compiledSource = source\<rparr>)))"

text \<open>
  A project at \<open>/proj\<close> for the examples, with the static resources \<open>myImage.png\<close> and
  \<open>jquery.min.js\<close>: what the glob returns for the patterns of each path.
\<close>

definition resource_specifier_of :: "string \<Rightarrow> module_id" where
  "resource_specifier_of n =
     \<lparr>specifier = ''@salesforce/resourceUrl/'' @ n, namespace = None, name = None,
      importer = None\<rparr>"

definition host_proj :: fs_host where
  "host_proj =
     \<lparr>fs_cwd = ''/home/dev'', env_ROOT_DIR = Some ''/proj'',
      readFileSync = (\<lambda>f. Inl (HostError ''ENOENT'')),
      JSON_parse = (\<lambda>t. Inl (HostError ''Unexpected token'')),
      XMLParser_parse = (\<lambda>t. Inl (HostError ''Invalid XML'')),
      fastGlob_sync = (\<lambda>ps.
        if ps = extension_patterns ''/proj/force-app/main/default/staticresources/myImage''
        then Inr [''/proj/force-app/main/default/staticresources/myImage.png'']
        else if ps = extension_patterns ''/proj/force-app/main/default/staticresources/jquery''
        then Inr [''/proj/force-app/main/default/staticresources/jquery.min.js'']
        else Inr [])\<rparr>"

section \<open>The locators (generateSfdxComponentsMap, generateSfdxLabelComponentsMap)\<close>

text \<open>
  \<open>path.parse(p).dir\<close> and \<open>path.parse(p).name\<close>: the path before the last segment
  (\<open>/\<close> for a segment directly under the root) and the base name without its extension.
\<close>

definition parse_dir :: "string \<Rightarrow> string" where
  "parse_dir p =
     (let segs = split (CHR ''/'') (stripTrailingSlashes p)
      in if length segs \<le> 1 then (if isAbsolute p then ''/'' else [])
         else let d = joinWith ''/'' (butlast segs) in if d = [] then ''/'' else d)"

definition parse_name :: "string \<Rightarrow> string" where
  "parse_name p = (let b = basename p in take (length b - length (extOf b)) b)"

text \<open>
  The first statements of both \<open>try\<close> blocks: the manifest is read and parsed, and the
  package directories give the pattern \<open>paths[0]\<close> or \<open>{a,b,...}\<close>.
  \<open>pkgDirs.map\<close> is a \<open>TypeError\<close> when the manifest has no \<open>packageDirectories\<close>.
\<close>

definition read_manifest :: "fs_host \<Rightarrow> string \<Rightarrow> error + project_json" where
  "read_manifest h root =
     (case readFileSync h (join [root, ''sfdx-project.json'']) of
        Inl e \<Rightarrow> Inl e
      | Inr content \<Rightarrow> JSON_parse h content)"

definition package_pattern :: "project_json \<Rightarrow> error + string" where
  "package_pattern projectJson =
     (case packageDirectories projectJson of
        None \<Rightarrow> Inl TypeError
      | Some pkgDirs \<Rightarrow>
          let paths = map path pkgDirs
          in Inr (if length paths = 1 then hd paths
                  else ''{'' @ joinWith '','' paths @ ''}''))"

text \<open>
  The label scan. \<open>files.forEach\<close> runs its own \<open>try\<close> for each file: a file that
  cannot be read or parsed leaves the map as it is. \<open>map.set\<close> keeps the position of
  a key that is already there; the key is the file's path without the first
  \<open>rootDir/\<close>.
\<close>

definition label_key :: "string \<Rightarrow> string \<Rightarrow> string" where
  "label_key root item = replace (root @ ''/'') [] item"

fun scan_label_files :: "fs_host \<Rightarrow> string \<Rightarrow> string list \<Rightarrow> labels_map \<Rightarrow> labels_map" where
  "scan_label_files h root [] m = m"
| "scan_label_files h root (item # items) m =
     scan_label_files h root items
       (case readFileSync h item of
          Inl e \<Rightarrow> m
        | Inr xmlContent \<Rightarrow>
            (case XMLParser_parse h xmlContent of
               Inl e \<Rightarrow> m
             | Inr jsonObj \<Rightarrow> AList.update (label_key root item) jsonObj m))"

definition label_glob :: "string \<Rightarrow> string \<Rightarrow> string" where
  "label_glob root pkgPattern =
     normalize_path (root @ ''/'' @ pkgPattern @ ''/**/*.labels-meta.xml'')"

definition generateSfdxLabelComponentsMap :: "fs_host \<Rightarrow> string \<Rightarrow> labels_map" where
  "generateSfdxLabelComponentsMap h root =
     (case read_manifest h root of
        Inl e \<Rightarrow> []
      | Inr projectJson \<Rightarrow>
          (case package_pattern projectJson of
             Inl e \<Rightarrow> []
           | Inr pkgPattern \<Rightarrow>
               (case fastGlob_sync h [label_glob root pkgPattern] of
                  Inl e \<Rightarrow> []
                | Inr files \<Rightarrow> scan_label_files h root files [])))"

text \<open>
  The component scan: a file whose directory ends in the file's name is a component.
  Nothing in this loop throws.
\<close>

fun index_components :: "string list \<Rightarrow> (string \<times> string) list \<Rightarrow> (string \<times> string) list" where
  "index_components [] m = m"
| "index_components (item # items) m =
     index_components items
       (if suffix (parse_name item) (parse_dir item)
        then AList.update (parse_name item) (parse_dir item) m
        else m)"

definition component_glob :: "string \<Rightarrow> string \<Rightarrow> string" where
  "component_glob root pkgPattern =
     normalize_path (root @ ''/'' @ pkgPattern @ ''/**/*/lwc/**/*.js'')"

definition generateSfdxComponentsMap :: "fs_host \<Rightarrow> string \<Rightarrow> (string \<times> string) list" where
  "generateSfdxComponentsMap h root =
     (case read_manifest h root of
        Inl e \<Rightarrow> []
      | Inr projectJson \<Rightarrow>
          (case package_pattern projectJson of
             Inl e \<Rightarrow> []
           | Inr pkgPattern \<Rightarrow>
               (case fastGlob_sync h [component_glob root pkgPattern] of
                  Inl e \<Rightarrow> []
                | Inr files \<Rightarrow> index_components files [])))"

text \<open>
  The files of a scan that can be read and parsed, each with its key and its document,
  in scan order.
\<close>

definition parsed_label_files :: "fs_host \<Rightarrow> string \<Rightarrow> string list \<Rightarrow> labels_map" where
  "parsed_label_files h root files =
     List.map_filter
       (\<lambda>item. case readFileSync h item of
                 Inl e \<Rightarrow> None
               | Inr xmlContent \<Rightarrow>
                   (case XMLParser_parse h xmlContent of
                      Inl e \<Rightarrow> None
                    | Inr jsonObj \<Rightarrow> Some (label_key root item, jsonObj)))
       files"

text \<open>
  A project with a manifest, one component and three label files, the second of which
  is not XML.
\<close>

definition host_sfdx :: fs_host where
  "host_sfdx =
     \<lparr>fs_cwd = ''/home/dev'', env_ROOT_DIR = Some ''/proj'',
      readFileSync = (\<lambda>f.
        if f = ''/proj/sfdx-project.json'' then Inr ''manifest''
        else if f = ''/proj/force-app/main/default/labels/A.labels-meta.xml'' then Inr ''xml A''
        else if f = ''/proj/force-app/main/default/labels/Bad.labels-meta.xml'' then Inr ''<<''
        else if f = ''/proj/force-app/main/default/labels/B.labels-meta.xml'' then Inr ''xml B''
        else Inl (HostError ''ENOENT'')),
      JSON_parse = (\<lambda>t.
        if t = ''manifest'' then Inr \<lparr>packageDirectories = Some [\<lparr>path = ''force-app''\<rparr>]\<rparr>
        else Inl (HostError ''Unexpected token'')),
      XMLParser_parse = (\<lambda>t.
        if t = ''xml A'' then Inr (snd (labels_two_files ! 0))
        else if t = ''xml B'' then Inr (snd (labels_two_files ! 1))
        else Inl (HostError ''Invalid XML'')),
      fastGlob_sync = (\<lambda>ps.
        if ps = [''/proj/force-app/**/*.labels-meta.xml'']
        then Inr [''/proj/force-app/main/default/labels/A.labels-meta.xml'',
                  ''/proj/force-app/main/default/labels/Bad.labels-meta.xml'',
                  ''/proj/force-app/main/default/labels/B.labels-meta.xml'']
        else if ps = [''/proj/force-app/**/*/lwc/**/*.js'']
        then Inr [''/proj/force-app/main/default/lwc/hello/hello.js'',
                  ''/proj/force-app/main/default/lwc/hello/helper.js'']
        else Inr [])\<rparr>"

section \<open>The idle timer (LwrServerUtils.startLwrServer, setShutDownTimer)\<close>

text \<open>
  The state of the server process, in the logical time of the event loop: a clock in
  milliseconds, the table of pending timeouts of the runtime (each with its handle and
  the time it is due), the variable \<open>timer\<close> of the listen callback, the two console
  streams, and the status given to \<open>process.exit\<close> once it was called. Every timeout
  of this process has the same callback, the shutdown function, so the table does not
  store it. \<open>timeoutMinutes\<close> is a whole number of minutes, as the preview command
  passes it (it starts the server with the default, 30): the product
  \<open>timeoutMinutes * 60 * 1000\<close> of the source is then exact.
\<close>

record process =
  clock :: nat
  next_handle :: nat
  timeouts :: "(nat \<times> nat) list"
  timer :: "nat option"
  console_log :: "string list"
  console_error :: "string list"
  exit_status :: "nat option"

text \<open>What \<open>await lwrapp.close()\<close> does: it returns, or it throws an error that prints as a string.\<close>

datatype close_result = Closed | CloseThrew string

text \<open>
  \<open>setTimeout(callback, delay)\<close> of the runtime registers a timeout and returns its
  handle; \<open>clearTimeout\<close> removes it. The timeout is due \<open>delay\<close> milliseconds from
  now when the delay is at least 1 and at most \<open>TIMEOUT_MAX\<close>, which is \<open>2^31 - 1\<close>
  (about 24.8 days); any other delay is set to 1 millisecond.
\<close>

definition TIMEOUT_MAX :: nat where
  "TIMEOUT_MAX = 2147483647"

definition setTimeout :: "nat \<Rightarrow> process \<Rightarrow> nat \<times> process" where
  "setTimeout delay p =
     (let ms = (if 1 \<le> delay \<and> delay \<le> TIMEOUT_MAX then delay else 1)
      in (next_handle p,
          p\<lparr>next_handle := next_handle p + 1,
            timeouts := timeouts p @ [(next_handle p, clock p + ms)]\<rparr>))"

definition clearTimeout :: "nat \<Rightarrow> process \<Rightarrow> process" where
  "clearTimeout t p = p\<lparr>timeouts := filter (\<lambda>x. fst x \<noteq> t) (timeouts p)\<rparr>"

definition setShutDownTimer :: "nat \<Rightarrow> process \<Rightarrow> nat \<times> process" where
  "setShutDownTimer timeoutMinutes p = setTimeout (timeoutMinutes * 60 * 1000) p"

text \<open>The callback that \<open>setShutDownTimer\<close> registers.\<close>

definition shutdown :: "nat \<Rightarrow> close_result \<Rightarrow> process \<Rightarrow> process" where
  "shutdown timeoutMinutes closing p =
     (let p1 = p\<lparr>console_log := console_log p
                  @ [''Server idle for '' @ toString timeoutMinutes
                       @ '' minutes... shutting down'']\<rparr>
      in case closing of
           Closed \<Rightarrow> p1\<lparr>exit_status := Some 0\<rparr>
         | CloseThrew err \<Rightarrow>
             p1\<lparr>console_error := console_error p1
                   @ [''Unable to gracefully shutdown the server - '' @ err],
                exit_status := Some 1\<rparr>)"

text \<open>
  The listen callback of \<open>startLwrServer\<close>: it logs the port and the mode of the
  runtime configuration and arms the first timer; and the \<open>request\<close> handler that it
  installs, which clears the timer in \<open>timer\<close> and arms a new one.
\<close>

definition on_listen :: "string \<Rightarrow> string \<Rightarrow> nat \<Rightarrow> process \<Rightarrow> process" where
  "on_listen runtimePort runtimeMode serverTimeoutMinutes p =
     (let p1 = p\<lparr>console_log := console_log p
                  @ [''Listening on port '' @ runtimePort @ '' in mode '' @ runtimeMode]\<rparr>
      in case setShutDownTimer serverTimeoutMinutes p1 of
           (t, p2) \<Rightarrow> p2\<lparr>timer := Some t\<rparr>)"

definition on_request :: "nat \<Rightarrow> process \<Rightarrow> process" where
  "on_request serverTimeoutMinutes p =
     (let p1 = (case timer p of Some t \<Rightarrow> clearTimeout t p | None \<Rightarrow> p)
      in case setShutDownTimer serverTimeoutMinutes p1 of
           (t, p2) \<Rightarrow> p2\<lparr>timer := Some t\<rparr>)"

text \<open>
  The event loop. An inbound request runs the handler. When time passes, the pending
  timeout that is due first (the one set first among equals) fires at its due time and
  runs the shutdown callback; when none is due the clock moves on. Nothing happens in
  a process that has exited.
\<close>

datatype event = Request | Elapse nat

fun earliest :: "(nat \<times> nat) list \<Rightarrow> (nat \<times> nat) option" where
  "earliest [] = None"
| "earliest (t # ts) =
     (case earliest ts of
        None \<Rightarrow> Some t
      | Some u \<Rightarrow> if snd t \<le> snd u then Some t else Some u)"

definition step :: "nat \<Rightarrow> close_result \<Rightarrow> event \<Rightarrow> process \<Rightarrow> process" where
  "step timeoutMinutes closing ev p =
     (if exit_status p \<noteq> None then p
      else case ev of
             Request \<Rightarrow> on_request timeoutMinutes p
           | Elapse d \<Rightarrow>
               (case earliest (filter (\<lambda>x. snd x \<le> clock p + d) (timeouts p)) of
                  None \<Rightarrow> p\<lparr>clock := clock p + d\<rparr>
                | Some t \<Rightarrow>
                    shutdown timeoutMinutes closing
                      (p\<lparr>clock := snd t, timeouts := remove1 t (timeouts p)\<rparr>)))"


definition started :: process where
  "started =
     \<lparr>clock = 0, next_handle = 0, timeouts = [], timer = None, console_log = [],
      console_error = [], exit_status = None\<rparr>"

definition listening :: "string \<Rightarrow> string \<Rightarrow> nat \<Rightarrow> process" where
  "listening runtimePort runtimeMode serverTimeoutMinutes =
     on_listen runtimePort runtimeMode serverTimeoutMinutes started"



section \<open>Properties of the port search\<close>

lemma probe_from_free:
  "\<not> port_in_use pf exec n \<Longrightarrow> probe_from pf exec n = Some n"
  by (subst probe_from.simps) (simp add: port_in_use_def split: sum.splits)

lemma probe_from_in_use:
  "port_in_use pf exec n \<Longrightarrow> probe_from pf exec n = probe_from pf exec (n + 2)"
  by (subst probe_from.simps) (simp add: port_in_use_def split: sum.splits)

lemma probe_from_skips:
  "\<forall>j<k. port_in_use pf exec (n + 2 * j) \<Longrightarrow>
   probe_from pf exec n = probe_from pf exec (n + 2 * k)"
proof (induction k)
  case 0
  show ?case by simp
next
  case (Suc k)
  have "probe_from pf exec n = probe_from pf exec (n + 2 * k)"
    using Suc by simp
  also have "\<dots> = probe_from pf exec (n + 2 * k + 2)"
    using Suc.prems by (intro probe_from_in_use) simp
  finally show ?case by (simp add: add.assoc)
qed

lemma probe_thrown_is_free: "exec (probe_cmd pf n) = Inl e \<Longrightarrow> \<not> port_in_use pf exec n"
  by (simp add: port_in_use_def)

lemma exec_3000_busy_3000: "port_in_use OtherPlatform exec_3000_busy 3000"
  by (simp add: port_in_use_def probe_cmd_def exec_3000_busy_def toString.simps trim_def
      js_whitespace_def)

lemma exec_3000_busy_3002: "\<not> port_in_use OtherPlatform exec_3000_busy 3002"
  by (simp add: port_in_use_def probe_cmd_def exec_3000_busy_def toString.simps)

text \<open>
  C5. The search starts at port 3000 and steps by 2 over every port whose probe reports
  it in use; it returns (the loop ends) at the first port of that progression whose
  probe reports it free, where a probe that throws counts as free. With 3000 in use and
  3002 free the result is 3002.
\<close>

theorem getNextAvailablePort_first_free:
  assumes "\<forall>j<k. port_in_use pf exec (3000 + 2 * j)"
    and "\<not> port_in_use pf exec (3000 + 2 * k)"
  shows "getNextAvailablePort pf exec = Some (3000 + 2 * k)
    \<and> (\<forall>e. exec (probe_cmd pf 3000) = Inl e \<longrightarrow> getNextAvailablePort pf exec = Some 3000)
    \<and> (port_in_use pf exec 3000 \<and> \<not> port_in_use pf exec 3002
          \<longrightarrow> getNextAvailablePort pf exec = Some 3002)"
proof (intro conjI allI impI)
  show "getNextAvailablePort pf exec = Some (3000 + 2 * k)"
    unfolding getNextAvailablePort_def DEFAULT_SERVER_PORT_def
    using probe_from_skips [OF assms(1)] probe_from_free [OF assms(2)] by simp
next
  fix e assume "exec (probe_cmd pf 3000) = Inl e"
  then show "getNextAvailablePort pf exec = Some 3000"
    unfolding getNextAvailablePort_def DEFAULT_SERVER_PORT_def
    by (intro probe_from_free probe_thrown_is_free)
next
  assume h: "port_in_use pf exec 3000 \<and> \<not> port_in_use pf exec 3002"
  have "probe_from pf exec 3000 = probe_from pf exec (3000 + 2)"
    using h by (intro probe_from_in_use) simp
  also have "\<dots> = Some 3002"
    using h probe_from_free [of pf exec 3002] by simp
  finally show "getNextAvailablePort pf exec = Some 3002"
    unfolding getNextAvailablePort_def DEFAULT_SERVER_PORT_def .
qed

theorem getNextAvailablePort_first_free_witness:
  "port_in_use OtherPlatform exec_3000_busy 3000
   \<and> \<not> port_in_use OtherPlatform exec_3000_busy 3002
   \<and> getNextAvailablePort OtherPlatform exec_3000_busy = Some 3002"
proof -
  have a: "\<forall>j<1. port_in_use OtherPlatform exec_3000_busy (3000 + 2 * j)"
    using exec_3000_busy_3000 by simp
  have b: "\<not> port_in_use OtherPlatform exec_3000_busy (3000 + 2 * 1)"
    using exec_3000_busy_3002 by simp
  show ?thesis
    using getNextAvailablePort_first_free [OF a b] exec_3000_busy_3000 exec_3000_busy_3002
    by simp
qed

section \<open>Properties of the merged configuration\<close>

text \<open>
  The whole result of the merge, field by field, from the object \<open>user\<close> that the loader
  returned (the empty object when it threw) and the port \<open>p\<close> that the search returns
  when it has to run.
\<close>

lemma merged_explicit:
  assumes u: "user = (case loadJsonFromFile h (configFile h pd) of Inr c \<Rightarrow> c | Inl e \<Rightarrow> empty_config)"
    and p: "truthy_number (port user) \<or> getNextAvailablePort (platform h) (executeCommandSync h) = Some p"
  shows "getMergedLwrConfig h cn pd = Some
     \<lparr>serverMode = (if truthy_string (serverMode user) then serverMode user else Some ''dev''),
      port = (if truthy_number (port user) then port user else Some (int p)),
      rootDir = (if truthy_string (rootDir user) then rootDir user else Some (resolve (cwd h) [pd])),
      cacheDir = cacheDir user,
      lwc = Some ((case lwc user of None \<Rightarrow> \<lparr>modules = None\<rparr> | Some l \<Rightarrow> l)
                   \<lparr>modules := Some (lwcModuleRecord h cn pd # declared_modules user)\<rparr>),
      moduleProviders = Some (getModifiedModuleProviders h @ declared (moduleProviders user)),
      routes = Some (defaultLwrRoute h cn pd # declared (routes user))\<rparr>"
proof (cases user)
  case (fields sm po rd cd lw mp ro)
  show ?thesis
    using p unfolding getMergedLwrConfig_def u [symmetric] fields
    by (cases lw; cases mp; cases ro; cases "truthy_number po"; cases "truthy_string sm";
        cases "truthy_string rd";
        simp add: Let_def declared_def declared_modules_def split: option.splits)
qed

text \<open>The paths of the project \<open>/proj\<close>; an absolute argument makes the working directory irrelevant.\<close>

lemma resolve_absolute: "isAbsolute p \<Longrightarrow> resolve c [p] = ''/'' @ normalizeString (p @ ''/'') False"
  by (simp add: resolve_def isAbsolute_def)

lemma proj_rootDirectory: "resolve c [''/proj''] = ''/proj''"
  by (simp add: resolve_absolute isAbsolute_def normalizeString_def)

lemma proj_configFile: "configFile h ''/proj'' = ''/proj/lwr.config.json''"
  by (simp add: configFile_def join_def normalize_path_def resolve_absolute isAbsolute_def normalizeString_def)

lemma proj_componentFullPath:
  "componentFullPath h ''force-app/main/default/lwc/helloWorld'' ''/proj'' = ''/proj/force-app/main/default/lwc/helloWorld''"
  by (simp add: componentFullPath_def join_def normalize_path_def resolve_absolute isAbsolute_def normalizeString_def)

lemma proj_twoLevelUp:
  "twoLevelUp h ''force-app/main/default/lwc/helloWorld'' ''/proj'' = ''/proj/force-app/main/default''"
  by (simp add: twoLevelUp_def proj_componentFullPath join_def normalize_path_def resolve_absolute isAbsolute_def normalizeString_def)

lemma proj_rootComp:
  "rootComp h ''force-app/main/default/lwc/helloWorld'' ''/proj'' = ''lwc/helloWorld''"
  by (simp add: rootComp_def proj_componentFullPath proj_twoLevelUp sep_def replaceAllChar_def)

text \<open>
  C6. On a POSIX host, for the component \<open>force-app/main/default/lwc/helloWorld\<close> of
  the project \<open>/proj\<close> with no \<open>lwr.config.json\<close> (the loader throws), once the port
  search has returned: the effective configuration has the one module record
  \<open>/proj/force-app/main/default\<close>, the one route with path \<open>/\<close> and root component
  \<open>lwc/helloWorld\<close> (its id ends in the clock's reading), and root directory \<open>/proj\<close>.
\<close>

theorem getMergedLwrConfig_helloWorld:
  assumes "platform h = OtherPlatform"
    and "loadJsonFromFile h ''/proj/lwr.config.json'' = Inl e"
    and "getNextAvailablePort (platform h) (executeCommandSync h) = Some p"
  shows "getMergedLwrConfig h ''force-app/main/default/lwc/helloWorld'' ''/proj'' =
     Some \<lparr>serverMode = Some ''dev'', port = Some (int p), rootDir = Some ''/proj'',
           cacheDir = None,
           lwc = Some \<lparr>modules = Some [\<lparr>dir = ''/proj/force-app/main/default''\<rparr>]\<rparr>,
           moduleProviders = Some (getModifiedModuleProviders h),
           routes = Some [\<lparr>route_id = ''lwc-helloWorld-'' @ toString (now h),
                           route_path = ''/'', rootComponent = ''lwc/helloWorld''\<rparr>]\<rparr>"
proof -
  have u: "empty_config = (case loadJsonFromFile h (configFile h ''/proj'') of Inr c \<Rightarrow> c | Inl e \<Rightarrow> empty_config)"
    using assms(2) by (simp add: proj_configFile)
  have p: "truthy_number (port empty_config) \<or> getNextAvailablePort (platform h) (executeCommandSync h) = Some p"
    using assms(3) by simp
  show ?thesis
    unfolding merged_explicit [OF u p]
    by (simp add: empty_config_def truthy_string_def truthy_number_def declared_def declared_modules_def
        lwcModuleRecord_def defaultLwrRoute_def proj_twoLevelUp proj_rootComp proj_rootDirectory
        replaceAllChar_def)
qed

lemma host_no_file_port: "getNextAvailablePort (platform host_no_file) (executeCommandSync host_no_file) = Some 3002"
  by (simp add: host_no_file_def getNextAvailablePort_def DEFAULT_SERVER_PORT_def probe_from.simps probe_cmd_def exec_3000_busy_def toString.simps trim_def js_whitespace_def)

lemma host_falsy_file_port: "getNextAvailablePort (platform host_falsy_file) (executeCommandSync host_falsy_file) = Some 3002"
  using host_no_file_port by (simp add: host_falsy_file_def host_no_file_def)


theorem getMergedLwrConfig_helloWorld_witness:
  "platform host_no_file = OtherPlatform
   \<and> loadJsonFromFile host_no_file ''/proj/lwr.config.json'' = Inl (HostError ''ENOENT'')
   \<and> getNextAvailablePort (platform host_no_file) (executeCommandSync host_no_file) = Some 3002
   \<and> getMergedLwrConfig host_no_file ''force-app/main/default/lwc/helloWorld'' ''/proj'' =
     Some \<lparr>serverMode = Some ''dev'', port = Some 3002, rootDir = Some ''/proj'',
           cacheDir = None,
           lwc = Some \<lparr>modules = Some [\<lparr>dir = ''/proj/force-app/main/default''\<rparr>]\<rparr>,
           moduleProviders = Some [ServiceEntry ''/plugin/lib/common/CustomLwcModuleProvider.js'' None,
                                   ServiceName ''@lwrjs/npm-module-provider''],
           routes = Some [\<lparr>route_id = ''lwc-helloWorld-1700000000000'',
                           route_path = ''/'', rootComponent = ''lwc/helloWorld''\<rparr>]\<rparr>"
proof -
  have a: "platform host_no_file = OtherPlatform" by (simp add: host_no_file_def)
  have b: "loadJsonFromFile host_no_file ''/proj/lwr.config.json'' = Inl (HostError ''ENOENT'')"
    by (simp add: host_no_file_def)
  have t: "toString (now host_no_file) = ''1700000000000''"
    by (simp add: host_no_file_def toString.simps)
  have m: "getModifiedModuleProviders host_no_file = [ServiceEntry ''/plugin/lib/common/CustomLwcModuleProvider.js'' None,
                                   ServiceName ''@lwrjs/npm-module-provider'']"
    by (simp add: getModifiedModuleProviders_def host_no_file_def resolve_absolute isAbsolute_def normalizeString_def)
  show ?thesis
    using getMergedLwrConfig_helloWorld [OF a b host_no_file_port] a b host_no_file_port t m
    by simp
qed


text \<open>
  C1 (amended). For every configuration file that loads: a declared \<open>serverMode\<close>,
  \<open>port\<close> or \<open>rootDir\<close> is kept as it is when its value is truthy (a non-empty
  string, a number other than 0); a field that is absent or falsy gets the default
  (\<open>dev\<close>, the port of the search, the resolved project directory); \<open>cacheDir\<close> is
  kept; and the computed module record, the providers of \<open>getModifiedModuleProviders\<close>
  and the default route are put in front of the lists the file declared (empty or not),
  or stand alone when it declared none.
\<close>

theorem getMergedLwrConfig_merge:
  assumes "loadJsonFromFile h (configFile h projectDir) = Inr user"
    and "truthy_number (port user) \<or> getNextAvailablePort (platform h) (executeCommandSync h) = Some p"
  shows "\<exists>c. getMergedLwrConfig h componentName projectDir = Some c
    \<and> serverMode c = (if truthy_string (serverMode user) then serverMode user else Some ''dev'')
    \<and> port c = (if truthy_number (port user) then port user else Some (int p))
    \<and> rootDir c = (if truthy_string (rootDir user) then rootDir user
                    else Some (resolve (cwd h) [projectDir]))
    \<and> cacheDir c = cacheDir user
    \<and> map_option modules (lwc c) =
          Some (Some (lwcModuleRecord h componentName projectDir # declared_modules user))
    \<and> moduleProviders c = Some (getModifiedModuleProviders h @ declared (moduleProviders user))
    \<and> routes c = Some (defaultLwrRoute h componentName projectDir # declared (routes user))"
proof -
  have u: "user = (case loadJsonFromFile h (configFile h projectDir) of Inr c \<Rightarrow> c | Inl e \<Rightarrow> empty_config)"
    using assms(1) by simp
  show ?thesis
    unfolding merged_explicit [OF u assms(2)] by simp
qed

lemma falsy_configFile: "loadJsonFromFile host_falsy_file (configFile host_falsy_file ''/proj'') = Inr user_config_falsy"
  by (simp add: proj_configFile) (simp add: host_falsy_file_def)

theorem getMergedLwrConfig_merge_witness:
  "loadJsonFromFile host_falsy_file (configFile host_falsy_file ''/proj'') = Inr user_config_falsy
   \<and> getNextAvailablePort (platform host_falsy_file) (executeCommandSync host_falsy_file) = Some 3002
   \<and> (\<exists>c. getMergedLwrConfig host_falsy_file ''force-app/main/default/lwc/helloWorld'' ''/proj'' = Some c
      \<and> serverMode c = Some ''prod'' \<and> port c = Some 3002 \<and> rootDir c = Some ''/proj''
      \<and> cacheDir c = None
      \<and> map_option modules (lwc c) = Some (Some [\<lparr>dir = ''/proj/force-app/main/default''\<rparr>])
      \<and> moduleProviders c = Some (getModifiedModuleProviders host_falsy_file
                                    @ [ServiceName ''@company/my-module-provider''])
      \<and> routes c = Some [\<lparr>route_id = ''lwc-helloWorld-1700000000000'', route_path = ''/'',
                            rootComponent = ''lwc/helloWorld''\<rparr>,
                          \<lparr>route_id = ''example'', route_path = ''/my/path'',
                            rootComponent = ''example/app''\<rparr>])"
proof -
  have t: "toString (now host_falsy_file) = ''1700000000000''"
    by (simp add: host_falsy_file_def host_no_file_def toString.simps)
  have p: "truthy_number (port user_config_falsy)
      \<or> getNextAvailablePort (platform host_falsy_file) (executeCommandSync host_falsy_file) = Some 3002"
    using host_falsy_file_port by simp
  show ?thesis
    using getMergedLwrConfig_merge [OF falsy_configFile p,
        of "''force-app/main/default/lwc/helloWorld''"]
      falsy_configFile host_falsy_file_port t
    by (simp add: user_config_falsy_def truthy_string_def truthy_number_def declared_def
        declared_modules_def lwcModuleRecord_def defaultLwrRoute_def proj_twoLevelUp
        proj_rootComp proj_rootDirectory replaceAllChar_def)
qed

text \<open>
  C1 as the spec states it fails for a declared value that is falsy: the file declares
  \<open>"port": 0\<close> and \<open>"rootDir": ""\<close>, and the effective configuration has port 3002
  and root directory \<open>/proj\<close>.
\<close>

theorem getMergedLwrConfig_falsy_counterexample:
  "loadJsonFromFile host_falsy_file (configFile host_falsy_file ''/proj'') = Inr user_config_falsy
   \<and> port user_config_falsy = Some 0
   \<and> rootDir user_config_falsy = Some []
   \<and> map_option port
        (getMergedLwrConfig host_falsy_file ''force-app/main/default/lwc/helloWorld'' ''/proj'')
       = Some (Some 3002)
   \<and> map_option rootDir
        (getMergedLwrConfig host_falsy_file ''force-app/main/default/lwc/helloWorld'' ''/proj'')
       = Some (Some ''/proj'')"
proof -
  have u: "user_config_falsy = (case loadJsonFromFile host_falsy_file (configFile host_falsy_file ''/proj'')
              of Inr c \<Rightarrow> c | Inl e \<Rightarrow> empty_config)"
    using falsy_configFile by simp
  have p: "truthy_number (port user_config_falsy)
      \<or> getNextAvailablePort (platform host_falsy_file) (executeCommandSync host_falsy_file) = Some 3002"
    using host_falsy_file_port by simp
  show ?thesis
    unfolding merged_explicit [OF u p]
    using falsy_configFile
    by (simp add: user_config_falsy_def truthy_string_def truthy_number_def proj_rootDirectory)
qed

section \<open>Properties of the label provider\<close>

lemma split_no_sep: "c \<notin> set s \<Longrightarrow> split c s = [s]"
  by (induction s) auto

lemma stripTrailingSlashes_id:
  "s \<noteq> [] \<Longrightarrow> last s \<noteq> CHR ''/'' \<Longrightarrow> stripTrailingSlashes s = s"
  by (cases s rule: rev_cases) (simp_all add: stripTrailingSlashes_def)

lemma label_name_of_plain: "plain_name n \<Longrightarrow> label_name_of (''@salesforce/label/c.'' @ n) = Some n"
  by (simp add: plain_name_def label_name_of_def at_def split_no_sep)
















lemma search_label_files_same_array:
  "labels_array d1 = labels_array d2 \<Longrightarrow>
   search_label_files n (pre @ (f, d1) # post) = search_label_files n (pre @ (f, d2) # post)"
  by (induction pre) (simp_all split: sum.splits)

text \<open>
  C10. A file with exactly one label has the label object itself as \<open>labels\<close>; every
  lookup in a label map gives the same result as with the one-element array in its
  place, and the lookup of that label's own specifier returns its \<open>value\<close>.
\<close>

theorem getLabelValueFromMap_single_label:
  "getLabelValueFromMap
       (pre @ (f, [(''CustomLabels'', Object [(''labels'', Object ps)])]) # post) spec
     = getLabelValueFromMap
         (pre @ (f, [(''CustomLabels'', Object [(''labels'', Array [Object ps])])]) # post) spec
   \<and> (read_optional (Object ps) ''fullName'' = Text n \<and> plain_name n \<longrightarrow>
        getLabelValueFromMap [(f, [(''CustomLabels'', Object [(''labels'', Object ps)])])]
          (''@salesforce/label/c.'' @ n) = Inr (read_optional (Object ps) ''value''))"
proof (intro conjI impI)
  have "labels_array [(''CustomLabels'', Object [(''labels'', Object ps)])]
      = labels_array [(''CustomLabels'', Object [(''labels'', Array [Object ps])])]"
    by (simp add: labels_array_def)
  then have "\<And>k. search_label_files k
        (pre @ (f, [(''CustomLabels'', Object [(''labels'', Object ps)])]) # post)
      = search_label_files k
        (pre @ (f, [(''CustomLabels'', Object [(''labels'', Array [Object ps])])]) # post)"
    by (rule search_label_files_same_array)
  then show "getLabelValueFromMap
       (pre @ (f, [(''CustomLabels'', Object [(''labels'', Object ps)])]) # post) spec
     = getLabelValueFromMap
         (pre @ (f, [(''CustomLabels'', Object [(''labels'', Array [Object ps])])]) # post) spec"
    by (simp add: getLabelValueFromMap_def split: option.splits)
next
  assume a: "read_optional (Object ps) ''fullName'' = Text n \<and> plain_name n"
  have ln: "label_name_of (''@salesforce/label/c.'' @ n) = Some n"
    by (rule label_name_of_plain) (simp add: a)
  have la: "labels_array [(''CustomLabels'', Object [(''labels'', Object ps)])] = [Object ps]"
    by (simp add: labels_array_def)
  show "getLabelValueFromMap [(f, [(''CustomLabels'', Object [(''labels'', Object ps)])])]
          (''@salesforce/label/c.'' @ n) = Inr (read_optional (Object ps) ''value'')"
    using a unfolding getLabelValueFromMap_def ln
    by (simp add: la plain_name_def read_property_def)
qed

theorem getLabelValueFromMap_single_label_witness:
  "read_optional greeting ''fullName'' = Text ''greeting'' \<and> plain_name ''greeting''
   \<and> getLabelValueFromMap
        [(''force-app/main/default/labels/B.labels-meta.xml'',
          [(''CustomLabels'', Object [(''labels'', greeting)])])]
        ''@salesforce/label/c.greeting'' = Inr (Text ''Hello'')"
proof -
  have a: "read_optional greeting ''fullName'' = Text ''greeting''" "plain_name ''greeting''"
    by (simp_all add: plain_name_def greeting_def)
  show ?thesis
    using getLabelValueFromMap_single_label
      [of "[]" "''force-app/main/default/labels/B.labels-meta.xml''"
          "[(''fullName'', Text ''greeting''), (''language'', Text ''en_US''),
            (''protected'', Boolean True), (''value'', Text ''Hello'')]" "[]" "[]" "''greeting''"] a
    by (simp add: greeting_def)
qed

section \<open>Properties of the component provider\<close>

lemma split_not_Nil: "split c s \<noteq> []"
  by (induction s) (auto split: list.splits)

lemma split_append_no_sep:
  "c \<notin> set e \<Longrightarrow> split c (a @ e) = butlast (split c a) @ [last (split c a) @ e]"
proof (induction a)
  case Nil
  then show ?case by (simp add: split_no_sep)
next
  case (Cons x a)
  then show ?case
    using split_not_Nil [of c a] by (cases "split c a") (auto split: list.splits)
qed

lemma normalizeSegs_snoc:
  "s \<noteq> [] \<Longrightarrow> s \<noteq> ''.'' \<Longrightarrow> s \<noteq> ''..'' \<Longrightarrow>
   normalizeSegs allow res (ss @ [s]) = normalizeSegs allow res ss @ [s]"
  by (induction ss arbitrary: res) auto

lemma joinWith_snoc:
  "joinWith sp (r @ [s]) = (if r = [] then s else joinWith sp r @ sp @ s)"
  by (induction sp r rule: joinWith.induct) auto

lemma normalizeString_suffix:
  assumes "CHR ''/'' \<notin> set e" and "3 \<le> length e"
  shows "suffix e (normalizeString (a @ e) allow) \<and> normalizeString (a @ e) allow \<noteq> []"
proof -
  let ?s = "last (split (CHR ''/'') a) @ e"
  have len: "3 \<le> length ?s" using assms(2) by simp
  have s1: "?s \<noteq> []" using assms(2) by auto
  have "length ?s \<noteq> length ''.''" "length ?s \<noteq> length ''..''"
    using len by simp_all
  then have s2: "?s \<noteq> ''.''" "?s \<noteq> ''..''"
    by fastforce+
  note s = s1 s2
  let ?r = "normalizeSegs allow [] (butlast (split (CHR ''/'') a))"
  have "normalizeString (a @ e) allow = joinWith ''/'' (?r @ [?s])"
    unfolding normalizeString_def split_append_no_sep [OF assms(1)]
    by (simp only: normalizeSegs_snoc [OF s])
  then have eq: "normalizeString (a @ e) allow =
      ((if ?r = [] then [] else joinWith ''/'' ?r @ ''/'') @ last (split (CHR ''/'') a)) @ e"
    by (simp add: joinWith_snoc)
  have "suffix e (normalizeString (a @ e) allow)"
    by (rule suffixI [OF eq])
  moreover have "normalizeString (a @ e) allow \<noteq> []"
    using assms(2) unfolding eq by auto
  ultimately show ?thesis by simp
qed

lemma join_suffix:
  assumes "CHR ''/'' \<notin> set e" and "3 \<le> length e" and "d \<noteq> []"
  shows "suffix e (join [d, x @ e])"
proof -
  have e: "e \<noteq> []" using assms(2) by auto
  then have le: "last e \<noteq> CHR ''/''" using assms(1) by (metis last_in_set)
  have j: "joinWith ''/'' (filter (\<lambda>a. a \<noteq> []) [d, x @ e]) = (d @ ''/'' @ x) @ e"
    using assms(3) e by simp
  have n: "suffix e (normalizeString ((d @ ''/'' @ x) @ e) allow)"
      "normalizeString ((d @ ''/'' @ x) @ e) allow \<noteq> []" for allow
    using normalizeString_suffix [OF assms(1,2)] by blast+
  show ?thesis
    unfolding join_def j Let_def normalize_path_def
    using e le n by (auto intro: suffix_appendI suffix_ConsI)
qed


lemma replace_prefix: "pat \<noteq> [] \<Longrightarrow> replace pat rep (pat @ s) = rep @ s"
  by (cases pat) simp_all

text \<open>
  C2 (amended). For a specifier \<open>c/name\<close> whose name has no \<open>#\<close> and no dot and is a key
  of the component map with a non-empty directory, the provider returns its own entry in
  every case: with path \<open>join(dir, name.js)\<close>, which ends in \<open>.js\<close>, when the probe
  for the script succeeds; with path \<open>join(dir, name.css)\<close>, which ends in \<open>.css\<close>,
  when only the probe for the style sheet succeeds; and with the path
  \<open>join(dir, name)\<close>, no extension added, when both probes fail. The probes are
  \<open>join(dir, name) + '.js'\<close> and \<open>join(dir, name) + '.css'\<close>.
\<close>

theorem getModuleEntry_component:
  assumes "map_of (moduleMap this) n = Some d" and "d \<noteq> []"
    and "CHR ''#'' \<notin> set n" and "CHR ''.'' \<notin> set n"
    and "specifier moduleId = ''c/'' @ n"
  shows "\<exists>e. getModuleEntry this moduleId = Some e
     \<and> component_id e = ''c/'' @ n @ ''|1'' \<and> component_specifier e = ''c/'' @ n
     \<and> (existsSync this (join [d, n] @ ''.js'') \<longrightarrow>
           component_path e = join [d, n @ ''.js''] \<and> suffix ''.js'' (component_path e))
     \<and> (\<not> existsSync this (join [d, n] @ ''.js'') \<and> existsSync this (join [d, n] @ ''.css'') \<longrightarrow>
           component_path e = join [d, n @ ''.css''] \<and> suffix ''.css'' (component_path e))
     \<and> (\<not> existsSync this (join [d, n] @ ''.js'') \<and> \<not> existsSync this (join [d, n] @ ''.css'') \<longrightarrow>
           component_path e = join [d, n])"
proof -
  have sp: "split (CHR ''#'') (''c/'' @ n) = [''c/'' @ n]"
    using assms(3) by (simp add: split_no_sep)
  have rp: "replace nestedModulesNamespace [] (''c/'' @ n) = n"
    unfolding nestedModulesNamespace_def by (subst replace_prefix) simp_all
  have jn: "join [d, x] \<noteq> []" for x
    using assms(2) by (auto simp: join_def normalize_path_def Let_def)
  have js: "suffix ''.js'' (join [d, n @ ''.js''])" and css: "suffix ''.css'' (join [d, n @ ''.css''])"
    using assms(2) by (auto intro!: join_suffix)
  have pre: "prefix nestedModulesNamespace (''c/'' @ n)"
    by (simp add: nestedModulesNamespace_def)
  show ?thesis
    unfolding getModuleEntry_def own_entry_def Let_def
    using pre js css
    by (simp add: assms(5) sp rp assms(1,2,4) truthy_string_def jn version_def
        del: append.simps) 
qed


lemma sample_dirs:
  "map_of (moduleMap sample_provider) ''hello'' = Some ''/proj/force-app/main/default/lwc/hello''"
  "map_of (moduleMap sample_provider) ''theme'' = Some ''/proj/force-app/main/default/lwc/theme''"
  "map_of (moduleMap sample_provider) ''empty'' = Some ''/proj/force-app/main/default/lwc/empty''"
  by (simp_all add: sample_provider_def)

lemma sample_joins:
  "join [''/proj/force-app/main/default/lwc/hello'', ''hello''] = ''/proj/force-app/main/default/lwc/hello/hello''"
  "join [''/proj/force-app/main/default/lwc/hello'', ''hello.js''] = ''/proj/force-app/main/default/lwc/hello/hello.js''"
  "join [''/proj/force-app/main/default/lwc/theme'', ''theme''] = ''/proj/force-app/main/default/lwc/theme/theme''"
  "join [''/proj/force-app/main/default/lwc/theme'', ''theme.css''] = ''/proj/force-app/main/default/lwc/theme/theme.css''"
  "join [''/proj/force-app/main/default/lwc/empty'', ''empty''] = ''/proj/force-app/main/default/lwc/empty/empty''"
  by (simp_all add: join_def normalize_path_def isAbsolute_def normalizeString_def)

theorem getModuleEntry_component_witness:
  "map_of (moduleMap sample_provider) ''hello'' = Some ''/proj/force-app/main/default/lwc/hello''
   \<and> existsSync sample_provider (''/proj/force-app/main/default/lwc/hello/hello'' @ ''.js'')
   \<and> map_option component_path (getModuleEntry sample_provider (component_specifier_of ''hello''))
        = Some ''/proj/force-app/main/default/lwc/hello/hello.js''
   \<and> map_of (moduleMap sample_provider) ''theme'' = Some ''/proj/force-app/main/default/lwc/theme''
   \<and> \<not> existsSync sample_provider (''/proj/force-app/main/default/lwc/theme/theme'' @ ''.js'')
   \<and> existsSync sample_provider (''/proj/force-app/main/default/lwc/theme/theme'' @ ''.css'')
   \<and> map_option component_path (getModuleEntry sample_provider (component_specifier_of ''theme''))
        = Some ''/proj/force-app/main/default/lwc/theme/theme.css''
   \<and> map_of (moduleMap sample_provider) ''empty'' = Some ''/proj/force-app/main/default/lwc/empty''
   \<and> \<not> existsSync sample_provider (''/proj/force-app/main/default/lwc/empty/empty'' @ ''.js'')
   \<and> \<not> existsSync sample_provider (''/proj/force-app/main/default/lwc/empty/empty'' @ ''.css'')
   \<and> map_option component_path (getModuleEntry sample_provider (component_specifier_of ''empty''))
        = Some ''/proj/force-app/main/default/lwc/empty/empty''"
proof -
  have ex: "existsSync sample_provider (''/proj/force-app/main/default/lwc/hello/hello'' @ ''.js'')"
    "\<not> existsSync sample_provider (''/proj/force-app/main/default/lwc/theme/theme'' @ ''.js'')"
    "existsSync sample_provider (''/proj/force-app/main/default/lwc/theme/theme'' @ ''.css'')"
    "\<not> existsSync sample_provider (''/proj/force-app/main/default/lwc/empty/empty'' @ ''.js'')"
    "\<not> existsSync sample_provider (''/proj/force-app/main/default/lwc/empty/empty'' @ ''.css'')"
    by (simp_all add: sample_provider_def)
  have sp: "specifier (component_specifier_of x) = ''c/'' @ x" for x
    by (simp add: component_specifier_of_def)
  have h: "\<exists>e. getModuleEntry sample_provider (component_specifier_of ''hello'') = Some e
      \<and> component_path e = ''/proj/force-app/main/default/lwc/hello/hello.js''"
    using getModuleEntry_component [OF sample_dirs(1) _ _ _ sp] ex
    by (auto simp: sample_joins)
  have t: "\<exists>e. getModuleEntry sample_provider (component_specifier_of ''theme'') = Some e
      \<and> component_path e = ''/proj/force-app/main/default/lwc/theme/theme.css''"
    using getModuleEntry_component [OF sample_dirs(2) _ _ _ sp] ex
    by (auto simp: sample_joins)
  have e: "\<exists>e. getModuleEntry sample_provider (component_specifier_of ''empty'') = Some e
      \<and> component_path e = ''/proj/force-app/main/default/lwc/empty/empty''"
    using getModuleEntry_component [OF sample_dirs(3) _ _ _ sp] ex
    by (auto simp: sample_joins)
  show ?thesis
    using h t e sample_dirs ex by auto
qed

text \<open>
  C2 as the spec states it fails when neither file exists: the directory of the
  component \<open>empty\<close> has no \<open>empty.js\<close> and no \<open>empty.css\<close>, and the provider returns
  an entry with the path \<open>.../lwc/empty/empty\<close>; it does not defer to the base class,
  which here would have returned \<open>undefined\<close>.
\<close>

theorem getModuleEntry_neither_file_counterexample:
  "map_of (moduleMap sample_provider) ''empty'' = Some ''/proj/force-app/main/default/lwc/empty''
   \<and> \<not> existsSync sample_provider ''/proj/force-app/main/default/lwc/empty/empty.js''
   \<and> \<not> existsSync sample_provider ''/proj/force-app/main/default/lwc/empty/empty.css''
   \<and> super_getModuleEntry sample_provider
         ((component_specifier_of ''empty'')\<lparr>importer := Some ''/plugin''\<rparr>) = None
   \<and> getModuleEntry sample_provider (component_specifier_of ''empty'') =
       Some \<lparr>component_id = ''c/empty|1'',
             component_path = ''/proj/force-app/main/default/lwc/empty/empty'',
             component_specifier = ''c/empty'', component_version = ''1''\<rparr>"
  by (simp add: sample_provider_def getModuleEntry_def own_entry_def component_specifier_of_def
      nestedModulesNamespace_def truthy_string_def version_def Let_def sample_joins)

section \<open>Properties of the resource provider\<close>

lemma plain_name_not_dots: "plain_name n \<Longrightarrow> n \<noteq> ''.'' \<and> n \<noteq> ''..''"
  by (auto simp: plain_name_def)

lemma plain_name_last: "plain_name n \<Longrightarrow> last n \<noteq> CHR ''/'' \<and> last n \<noteq> CHR ''.''"
  unfolding plain_name_def by (metis last_in_set)

lemma split_snoc_sep: "split c (a @ [c]) = split c a @ [[]]"
proof (induction a)
  case Nil
  show ?case by simp
next
  case (Cons x a)
  then show ?case
    using split_not_Nil [of c a] by (cases "split c a") auto
qed

lemma basename_named:
  assumes "plain_name n" and "plain_name ext"
  shows "basename (dr @ ''/'' @ n @ ''.'' @ ext) = n @ ''.'' @ ext"
proof -
  have l: "last (dr @ ''/'' @ n @ ''.'' @ ext) \<noteq> CHR ''/''"
    using plain_name_last [OF assms(2)] assms(2) by (simp add: plain_name_def)
  have st: "stripTrailingSlashes (dr @ ''/'' @ n @ ''.'' @ ext) = dr @ ''/'' @ n @ ''.'' @ ext"
    using l by (intro stripTrailingSlashes_id) simp_all
  have ns: "CHR ''/'' \<notin> set (n @ ''.'' @ ext)"
    using assms by (simp add: plain_name_def)
  have "split (CHR ''/'') ((dr @ ''/'') @ (n @ ''.'' @ ext)) =
      butlast (split (CHR ''/'') (dr @ ''/'')) @ [last (split (CHR ''/'') (dr @ ''/'')) @ (n @ ''.'' @ ext)]"
    by (rule split_append_no_sep [OF ns])
  moreover have "last (split (CHR ''/'') (dr @ ''/'')) = []"
    using split_snoc_sep [of "CHR ''/''" dr] by simp
  ultimately have "last (split (CHR ''/'') (dr @ ''/'' @ n @ ''.'' @ ext)) = n @ ''.'' @ ext"
    by simp
  then show ?thesis
    unfolding basename_def st .
qed

lemma extOf_named:
  assumes "plain_name n" and "plain_name ext"
  shows "extOf (n @ ''.'' @ ext) = ''.'' @ ext"
proof -
  have nd: "CHR ''.'' \<notin> set ext" "n \<noteq> []" "CHR ''.'' \<notin> set n"
    using assms by (simp_all add: plain_name_def)
  have r: "rev (n @ ''.'' @ ext) = rev ext @ CHR ''.'' # rev n" by simp
  have t: "takeWhile (\<lambda>c. c \<noteq> CHR ''.'') (rev ext @ CHR ''.'' # rev n) = rev ext"
    using nd(1) by (subst takeWhile_append2) auto
  have d: "dropWhile (\<lambda>c. c \<noteq> CHR ''.'') (rev ext @ CHR ''.'' # rev n) = CHR ''.'' # rev n"
    using nd(1) by (subst dropWhile_append2) auto
  have b: "n @ ''.'' @ ext \<noteq> ''..''"
  proof
    assume "n @ ''.'' @ ext = ''..''"
    then have "set (n @ ''.'' @ ext) = set ''..''" by simp
    then show False using nd(2,3) by (cases n) auto
  qed
  show ?thesis
    unfolding extOf_def Let_def r t d using b nd(2) by simp
qed

lemma extname_named:
  "plain_name n \<Longrightarrow> plain_name ext \<Longrightarrow> extname (dr @ ''/'' @ n @ ''.'' @ ext) = ''.'' @ ext"
  by (simp only: extname_def basename_named extOf_named)

lemma join_staticresources:
  "plain_name n \<Longrightarrow>
   join [''force-app/main/default/staticresources'', n] = ''force-app/main/default/staticresources/'' @ n"
  using plain_name_not_dots [of n] plain_name_last [of n]
  by (simp add: join_def normalize_path_def isAbsolute_def normalizeString_def split_no_sep
      plain_name_def)

lemma resource_name_plain:
  "plain_name n \<Longrightarrow>
   at (split (CHR ''/'') (''@salesforce/resourceUrl/'' @ n)) 2 = Some n \<and> hd (split (CHR ''.'') n) = n"
  by (simp add: plain_name_def at_def split_no_sep)


lemma resource_getModule_explicit:
  assumes "plain_name n" and "specifier moduleId = ''@salesforce/resourceUrl/'' @ n"
  shows "\<exists>m. resource_getModule hc h moduleId = Inr (Some m)
     \<and> resource_originalSource m =
         label_source (''force-app/main/default/staticresources/'' @ n
           @ getFileExtension h (fullPathOf h (''force-app/main/default/staticresources/'' @ n)))
     \<and> resource_compiledSource m = resource_originalSource m"
proof -
  have sc: "isResourceUrlScopedModule (specifier moduleId)"
    by (simp add: isResourceUrlScopedModule_def RESOURCE_URL_PREFIX_def assms(2))
  have nc: "\<not> prefix CONTENT_ASSET_URL_PREFIX (specifier moduleId)"
    by (simp add: CONTENT_ASSET_URL_PREFIX_def assms(2))
  have nm: "at (split (CHR ''/'') (specifier moduleId)) 2 = Some n"
    using resource_name_plain [OF assms(1)] by (simp add: assms(2))
  have hd: "hd (split (CHR ''.'') n) = n"
    using resource_name_plain [OF assms(1)] by simp
  show ?thesis
    unfolding resource_getModule_def resource_getModuleEntry_def
    using sc nc
    by (simp add: nm hd Let_def getResourceFilePath_def getPath_def
        join_staticresources [OF assms(1)])
qed

text \<open>
  C8 (amended). For a specifier \<open>@salesforce/resourceUrl/name\<close> whose name is not empty
  and has no dot or slash, the provider always returns a module. When the first file
  that the glob for \<open>fullPath.*\<close> (the sidecar patterns excluded) returns is named
  \<open>name.ext\<close>, with an extension that has no further dot, the exported string is
  \<open>force-app/main/default/staticresources/name.ext\<close>; when the glob returns no file,
  or throws, the exported string is \<open>force-app/main/default/staticresources/name\<close>,
  with no extension.
\<close>

theorem resource_getModule_path:
  assumes "plain_name n" and "specifier moduleId = ''@salesforce/resourceUrl/'' @ n"
    and "found = fastGlob_sync h (extension_patterns
           (fullPathOf h (''force-app/main/default/staticresources/'' @ n)))"
  shows "\<exists>m. resource_getModule hc h moduleId = Inr (Some m)
     \<and> resource_compiledSource m = resource_originalSource m
     \<and> (\<forall>dr ext fs. plain_name ext \<and> found = Inr ((dr @ ''/'' @ n @ ''.'' @ ext) # fs) \<longrightarrow>
           resource_originalSource m =
             label_source (''force-app/main/default/staticresources/'' @ n @ ''.'' @ ext))
     \<and> (found = Inr [] \<or> (\<exists>e. found = Inl e) \<longrightarrow>
           resource_originalSource m =
             label_source (''force-app/main/default/staticresources/'' @ n))"
proof -
  obtain m where m: "resource_getModule hc h moduleId = Inr (Some m)"
    "resource_originalSource m =
         label_source (''force-app/main/default/staticresources/'' @ n
           @ getFileExtension h (fullPathOf h (''force-app/main/default/staticresources/'' @ n)))"
    "resource_compiledSource m = resource_originalSource m"
    using resource_getModule_explicit [OF assms(1,2)] by blast
  have a: "getFileExtension h (fullPathOf h (''force-app/main/default/staticresources/'' @ n))
      = ''.'' @ ext"
    if "plain_name ext" "found = Inr ((dr @ ''/'' @ n @ ''.'' @ ext) # fs)" for dr ext fs
    using that(2) extname_named [OF assms(1) that(1), of dr]
    unfolding getFileExtension_def assms(3) [symmetric] by simp
  have b: "getFileExtension h (fullPathOf h (''force-app/main/default/staticresources/'' @ n)) = []"
    if "found = Inr [] \<or> (\<exists>e. found = Inl e)"
    using that unfolding getFileExtension_def assms(3) [symmetric] by auto
  show ?thesis
  proof (intro exI [of _ m] conjI allI impI)
    show "resource_getModule hc h moduleId = Inr (Some m)" by (rule m(1))
    show "resource_compiledSource m = resource_originalSource m" by (rule m(3))
  next
    fix dr ext fs
    assume "plain_name ext \<and> found = Inr ((dr @ ''/'' @ n @ ''.'' @ ext) # fs)"
    then have "getFileExtension h (fullPathOf h (''force-app/main/default/staticresources/'' @ n))
      = ''.'' @ ext"
      using a by blast
    then show "resource_originalSource m =
        label_source (''force-app/main/default/staticresources/'' @ n @ ''.'' @ ext)"
      unfolding m(2) by simp
  next
    assume "found = Inr [] \<or> (\<exists>e. found = Inl e)"
    then have "getFileExtension h (fullPathOf h (''force-app/main/default/staticresources/'' @ n)) = []"
      by (rule b)
    then show "resource_originalSource m =
        label_source (''force-app/main/default/staticresources/'' @ n)"
      unfolding m(2) by simp
  qed
qed

lemma host_proj_fullPath:
  "fullPathOf host_proj ''force-app/main/default/staticresources/myImage'' = ''/proj/force-app/main/default/staticresources/myImage''"
  "fullPathOf host_proj ''force-app/main/default/staticresources/jquery'' = ''/proj/force-app/main/default/staticresources/jquery''"
  "fullPathOf host_proj ''force-app/main/default/staticresources/missing'' = ''/proj/force-app/main/default/staticresources/missing''"
  by (simp_all add: fullPathOf_def host_proj_def resolve_def normalizeString_def normalize_path_def isAbsolute_def)

lemma host_proj_globs:
  "fastGlob_sync host_proj (extension_patterns ''/proj/force-app/main/default/staticresources/myImage'')
     = Inr [''/proj/force-app/main/default/staticresources/myImage.png'']"
  "fastGlob_sync host_proj (extension_patterns ''/proj/force-app/main/default/staticresources/jquery'')
     = Inr [''/proj/force-app/main/default/staticresources/jquery.min.js'']"
  "fastGlob_sync host_proj (extension_patterns ''/proj/force-app/main/default/staticresources/missing'')
     = Inr []"
  by (simp_all add: host_proj_def extension_patterns_def)

theorem resource_getModule_path_witness:
  "plain_name ''myImage'' \<and> plain_name ''png''
   \<and> fastGlob_sync host_proj (extension_patterns
         (fullPathOf host_proj (''force-app/main/default/staticresources/'' @ ''myImage'')))
       = Inr [''/proj/force-app/main/default/staticresources'' @ ''/'' @ ''myImage'' @ ''.'' @ ''png'']
   \<and> map_sum id (map_option resource_originalSource)
         (resource_getModule sample_hash host_proj (resource_specifier_of ''myImage''))
       = Inr (Some (''export default '' @ [CHR 0x22]
            @ ''force-app/main/default/staticresources/myImage.png'' @ [CHR 0x22] @ '';''))
   \<and> plain_name ''missing''
   \<and> fastGlob_sync host_proj (extension_patterns
         (fullPathOf host_proj (''force-app/main/default/staticresources/'' @ ''missing''))) = Inr []
   \<and> map_sum id (map_option resource_originalSource)
         (resource_getModule sample_hash host_proj (resource_specifier_of ''missing''))
       = Inr (Some (''export default '' @ [CHR 0x22]
            @ ''force-app/main/default/staticresources/missing'' @ [CHR 0x22] @ '';''))"
proof -
  have p: "plain_name ''myImage''" "plain_name ''png''" "plain_name ''missing''"
    by (simp_all add: plain_name_def)
  have sp: "specifier (resource_specifier_of x) = ''@salesforce/resourceUrl/'' @ x" for x
    by (simp add: resource_specifier_of_def)
  have g1: "fastGlob_sync host_proj (extension_patterns
         (fullPathOf host_proj (''force-app/main/default/staticresources/'' @ ''myImage'')))
       = Inr [''/proj/force-app/main/default/staticresources'' @ ''/'' @ ''myImage'' @ ''.'' @ ''png'']"
    using host_proj_fullPath(1) host_proj_globs(1) by simp
  have g2: "fastGlob_sync host_proj (extension_patterns
         (fullPathOf host_proj (''force-app/main/default/staticresources/'' @ ''missing''))) = Inr []"
    using host_proj_fullPath(3) host_proj_globs(3) by simp
  have w1: "map_sum id (map_option resource_originalSource)
         (resource_getModule sample_hash host_proj (resource_specifier_of ''myImage''))
       = Inr (Some (label_source (''force-app/main/default/staticresources/'' @ ''myImage'' @ ''.'' @ ''png'')))"
    using resource_getModule_path [OF p(1) sp g1 [symmetric], of sample_hash] p(2) by auto
  have w2: "map_sum id (map_option resource_originalSource)
         (resource_getModule sample_hash host_proj (resource_specifier_of ''missing''))
       = Inr (Some (label_source (''force-app/main/default/staticresources/'' @ ''missing'')))"
    using resource_getModule_path [OF p(3) sp g2 [symmetric], of sample_hash] by auto
  show ?thesis
    using p g1 g2 w1 w2 by (simp add: label_source_def)
qed

text \<open>
  C8 as the spec states it fails for a name with a dot: the file
  \<open>force-app/main/default/staticresources/jquery.min.js\<close> exists, the glob for
  \<open>jquery.*\<close> returns it, and the module for \<open>@salesforce/resourceUrl/jquery.min\<close> exports
  \<open>force-app/main/default/staticresources/jquery.js\<close>.
\<close>

theorem resource_getModule_dotted_name_counterexample:
  "fastGlob_sync host_proj
      (extension_patterns ''/proj/force-app/main/default/staticresources/jquery'')
     = Inr [''/proj/force-app/main/default/staticresources/jquery.min.js'']
   \<and> map_sum id (map_option resource_originalSource)
         (resource_getModule sample_hash host_proj (resource_specifier_of ''jquery.min''))
       = Inr (Some (''export default '' @ [CHR 0x22]
            @ ''force-app/main/default/staticresources/jquery.js'' @ [CHR 0x22] @ '';''))"
proof -
  have j: "join [''force-app/main/default/staticresources'', ''jquery'']
      = ''force-app/main/default/staticresources/jquery''"
    by (simp add: join_def normalize_path_def isAbsolute_def normalizeString_def)
  have x: "extname ''/proj/force-app/main/default/staticresources/jquery.min.js'' = ''.js''"
    by (simp add: extname_def basename_def extOf_def stripTrailingSlashes_def)
  have e: "getFileExtension host_proj ''/proj/force-app/main/default/staticresources/jquery'' = ''.js''"
    by (simp add: getFileExtension_def host_proj_globs x)
  have n: "at (split (CHR ''/'') ''@salesforce/resourceUrl/jquery.min'') 2 = Some ''jquery.min''"
      "hd (split (CHR ''.'') ''jquery.min'') = ''jquery''"
    by (simp_all add: at_def)
  show ?thesis
    by (simp add: host_proj_globs)
       (simp add: resource_getModule_def resource_getModuleEntry_def resource_specifier_of_def
         isResourceUrlScopedModule_def RESOURCE_URL_PREFIX_def CONTENT_ASSET_URL_PREFIX_def
         n at_def Let_def getResourceFilePath_def getPath_def j host_proj_fullPath e label_source_def)
qed

section \<open>Properties of the locators\<close>

lemma host_sfdx_label_map: "generateSfdxLabelComponentsMap host_sfdx ''/proj'' = labels_two_files"
  by (simp add: generateSfdxLabelComponentsMap_def read_manifest_def package_pattern_def host_sfdx_def
     label_glob_def join_def normalize_path_def normalizeString_def isAbsolute_def label_key_def
     labels_two_files_def)

lemma host_sfdx_component_map: "generateSfdxComponentsMap host_sfdx ''/proj'' = [(''hello'', ''/proj/force-app/main/default/lwc/hello'')]"
  by (simp add: generateSfdxComponentsMap_def read_manifest_def package_pattern_def host_sfdx_def
     component_glob_def join_def normalize_path_def normalizeString_def isAbsolute_def
     parse_dir_def parse_name_def basename_def extOf_def stripTrailingSlashes_def Let_def
     suffix_to_prefix)

lemma scan_label_files_map:
  "map_of (scan_label_files h r files m) = map_of m ++ map_of (rev (parsed_label_files h r files))"
proof (induction files arbitrary: m)
  case Nil
  show ?case by (simp add: parsed_label_files_def List.map_filter_simps)
next
  case (Cons item files)
  show ?case
    by (auto simp: Cons parsed_label_files_def List.map_filter_simps update_conv'
        map_add_upd_left split: sum.splits)
qed

lemma scan_label_files_keys:
  "fst ` set (scan_label_files h r files m) = fst ` set m \<union> fst ` set (parsed_label_files h r files)"
proof (induction files arbitrary: m)
  case Nil
  show ?case by (simp add: parsed_label_files_def List.map_filter_simps)
next
  case (Cons item files)
  show ?case
    by (auto simp: Cons parsed_label_files_def List.map_filter_simps dom_update
        split: sum.splits)
qed


text \<open>
  C7. The locators are total: every statement that can throw stands in a \<open>try\<close>, and
  the result is always a map. When the manifest cannot be read or parsed, or has no
  package directories, or the glob throws, both maps are empty. Otherwise the label map
  holds the files of the glob's result that can be read and parsed, and only those: a
  file that fails is skipped and the files after it are still set (the last file of a
  key gives its document).
\<close>

theorem locators_never_raise:
  "((\<exists>e. read_manifest h root = Inl e) \<longrightarrow>
       generateSfdxComponentsMap h root = [] \<and> generateSfdxLabelComponentsMap h root = [])
   \<and> (\<forall>pj. read_manifest h root = Inr pj \<and> (\<exists>e. package_pattern pj = Inl e) \<longrightarrow>
       generateSfdxComponentsMap h root = [] \<and> generateSfdxLabelComponentsMap h root = [])
   \<and> (\<forall>pj pat files.
         read_manifest h root = Inr pj \<and> package_pattern pj = Inr pat
         \<and> fastGlob_sync h [label_glob root pat] = Inr files \<longrightarrow>
         map_of (generateSfdxLabelComponentsMap h root)
           = map_of (rev (parsed_label_files h root files))
         \<and> fst ` set (generateSfdxLabelComponentsMap h root)
           = fst ` set (parsed_label_files h root files))
   \<and> (\<forall>pj pat e.
         read_manifest h root = Inr pj \<and> package_pattern pj = Inr pat
         \<and> fastGlob_sync h [label_glob root pat] = Inl e \<longrightarrow>
         generateSfdxLabelComponentsMap h root = [])"
  by (auto simp: generateSfdxComponentsMap_def generateSfdxLabelComponentsMap_def
      scan_label_files_map scan_label_files_keys)

lemma host_proj_manifest: "read_manifest host_proj ''/proj'' = Inl (HostError ''ENOENT'')"
  by (simp add: read_manifest_def host_proj_def)

lemma host_sfdx_manifest:
  "read_manifest host_sfdx ''/proj'' = Inr \<lparr>packageDirectories = Some [\<lparr>path = ''force-app''\<rparr>]\<rparr>"
  by (simp add: read_manifest_def host_sfdx_def join_def normalize_path_def normalizeString_def
      isAbsolute_def)

lemma host_sfdx_pattern:
  "package_pattern \<lparr>packageDirectories = Some [\<lparr>path = ''force-app''\<rparr>]\<rparr> = Inr ''force-app''"
  by (simp add: package_pattern_def)

lemma host_sfdx_glob:
  "fastGlob_sync host_sfdx [label_glob ''/proj'' ''force-app'']
     = Inr [''/proj/force-app/main/default/labels/A.labels-meta.xml'',
            ''/proj/force-app/main/default/labels/Bad.labels-meta.xml'',
            ''/proj/force-app/main/default/labels/B.labels-meta.xml'']"
  by (simp add: label_glob_def normalize_path_def normalizeString_def isAbsolute_def host_sfdx_def)

lemma host_sfdx_parsed:
  "parsed_label_files host_sfdx ''/proj''
     [''/proj/force-app/main/default/labels/A.labels-meta.xml'',
      ''/proj/force-app/main/default/labels/Bad.labels-meta.xml'',
      ''/proj/force-app/main/default/labels/B.labels-meta.xml''] = labels_two_files"
  by (simp add: parsed_label_files_def List.map_filter_simps host_sfdx_def label_key_def
      labels_two_files_def)

theorem locators_never_raise_witness:
  "read_manifest host_proj ''/proj'' = Inl (HostError ''ENOENT'')
   \<and> generateSfdxComponentsMap host_proj ''/proj'' = []
   \<and> generateSfdxLabelComponentsMap host_proj ''/proj'' = []
   \<and> read_manifest host_sfdx ''/proj'' = Inr \<lparr>packageDirectories = Some [\<lparr>path = ''force-app''\<rparr>]\<rparr>
   \<and> package_pattern \<lparr>packageDirectories = Some [\<lparr>path = ''force-app''\<rparr>]\<rparr> = Inr ''force-app''
   \<and> fastGlob_sync host_sfdx [label_glob ''/proj'' ''force-app'']
       = Inr [''/proj/force-app/main/default/labels/A.labels-meta.xml'',
              ''/proj/force-app/main/default/labels/Bad.labels-meta.xml'',
              ''/proj/force-app/main/default/labels/B.labels-meta.xml'']
   \<and> fst ` set (generateSfdxLabelComponentsMap host_sfdx ''/proj'')
       = {''force-app/main/default/labels/A.labels-meta.xml'',
          ''force-app/main/default/labels/B.labels-meta.xml''}
   \<and> map_of (generateSfdxLabelComponentsMap host_sfdx ''/proj'')
          ''force-app/main/default/labels/B.labels-meta.xml''
       = Some [(''CustomLabels'', Object [(''labels'', greeting)])]"
proof -
  have a: "generateSfdxComponentsMap host_proj ''/proj'' = []
      \<and> generateSfdxLabelComponentsMap host_proj ''/proj'' = []"
    by (rule locators_never_raise [of host_proj "''/proj''", THEN conjunct1, THEN mp,
          OF exI, OF host_proj_manifest])
  have c: "read_manifest host_sfdx ''/proj'' = Inr \<lparr>packageDirectories = Some [\<lparr>path = ''force-app''\<rparr>]\<rparr>
      \<and> package_pattern \<lparr>packageDirectories = Some [\<lparr>path = ''force-app''\<rparr>]\<rparr> = Inr ''force-app''
      \<and> fastGlob_sync host_sfdx [label_glob ''/proj'' ''force-app'']
          = Inr [''/proj/force-app/main/default/labels/A.labels-meta.xml'',
                 ''/proj/force-app/main/default/labels/Bad.labels-meta.xml'',
                 ''/proj/force-app/main/default/labels/B.labels-meta.xml'']"
    using host_sfdx_manifest host_sfdx_pattern host_sfdx_glob by (intro conjI)
  have b: "map_of (generateSfdxLabelComponentsMap host_sfdx ''/proj'') = map_of (rev labels_two_files)
      \<and> fst ` set (generateSfdxLabelComponentsMap host_sfdx ''/proj'') = fst ` set labels_two_files"
    using locators_never_raise [of host_sfdx "''/proj''", THEN conjunct2, THEN conjunct2,
        THEN conjunct1, rule_format, OF c]
    by (simp only: host_sfdx_parsed)
  have k: "fst ` set labels_two_files
      = {''force-app/main/default/labels/A.labels-meta.xml'',
         ''force-app/main/default/labels/B.labels-meta.xml''}"
    by (simp add: labels_two_files_def)
  have v: "map_of (rev labels_two_files) ''force-app/main/default/labels/B.labels-meta.xml''
      = Some [(''CustomLabels'', Object [(''labels'', greeting)])]"
    by (simp add: labels_two_files_def)
  show ?thesis
    using a c host_proj_manifest by (simp only: b k v)
qed

section \<open>Properties of the idle timer\<close>






lemma shutdown_exit:
  "exit_status (shutdown tm closing p) = Some (case closing of Closed \<Rightarrow> 0 | CloseThrew err \<Rightarrow> 1)"
  by (simp add: shutdown_def Let_def split: close_result.splits)


lemma elapse_fires:
  assumes "exit_status p = None"
    and "earliest (filter (\<lambda>x. snd x \<le> clock p + d) (timeouts p)) = Some t"
  shows "exit_status (step tm closing (Elapse d) p)
     = Some (case closing of Closed \<Rightarrow> 0 | CloseThrew err \<Rightarrow> 1)"
  using assms by (simp add: step_def shutdown_exit)





text \<open>
  C9. The shutdown callback always calls \<open>process.exit\<close>: with status 0 and nothing
  on the error stream when the close returns, with status 1 after logging the error
  when the close throws. So whenever time passes in a running process until a timeout
  is due, the process has exited afterwards, with one of these two statuses.
\<close>

theorem shutdown_always_exits:
  "exit_status (shutdown tm Closed p) = Some 0
   \<and> console_error (shutdown tm Closed p) = console_error p
   \<and> exit_status (shutdown tm (CloseThrew err) p) = Some 1
   \<and> console_error (shutdown tm (CloseThrew err) p)
       = console_error p @ [''Unable to gracefully shutdown the server - '' @ err]
   \<and> exit_status (shutdown tm closing p) \<noteq> None
   \<and> (exit_status p = None
        \<and> earliest (filter (\<lambda>x. snd x \<le> clock p + d) (timeouts p)) = Some t \<longrightarrow>
        exit_status (step tm closing (Elapse d) p)
          = Some (case closing of Closed \<Rightarrow> 0 | CloseThrew e \<Rightarrow> 1))"
  using elapse_fires [of p d t tm closing]
  by (simp add: shutdown_exit) (simp add: shutdown_def Let_def)

theorem shutdown_always_exits_witness:
  "exit_status (listening ''3000'' ''dev'' 1) = None
   \<and> earliest (filter (\<lambda>x. snd x \<le> clock (listening ''3000'' ''dev'' 1) + 60000)
        (timeouts (listening ''3000'' ''dev'' 1))) = Some (0, 60000)
   \<and> exit_status (step 1 (CloseThrew ''Error: server is busy'') (Elapse 60000)
        (listening ''3000'' ''dev'' 1)) = Some 1
   \<and> console_error (shutdown 1 (CloseThrew ''Error: server is busy'') (listening ''3000'' ''dev'' 1))
       = [''Unable to gracefully shutdown the server - Error: server is busy'']"
proof -
  have a: "exit_status (listening ''3000'' ''dev'' 1) = None"
    and b: "earliest (filter (\<lambda>x. snd x \<le> clock (listening ''3000'' ''dev'' 1) + 60000)
        (timeouts (listening ''3000'' ''dev'' 1))) = Some (0, 60000)"
    and c: "console_error (listening ''3000'' ''dev'' 1) = []"
    by (simp_all add: listening_def on_listen_def started_def setShutDownTimer_def
        setTimeout_def TIMEOUT_MAX_def Let_def)
  show ?thesis
    using shutdown_always_exits [of 1 "listening ''3000'' ''dev'' 1" "''Error: server is busy''"
        "CloseThrew ''Error: server is busy''" 60000 "(0, 60000)"] a b c
    by simp
qed

end
